theory Spec2Isabelle
  imports Main
begin

section \<open>The screening bot: a model of \<open>src/src/index.ts\<close>\<close>

text \<open>
  The source file holds two workers one after the other. The first (lines 1 to 725) asks
  five button questions and takes the text after the colon of a button code as the answer.
  The second (lines 727 to 1540) asks eight questions, maps button codes to canonical
  values through \<open>CALLBACK_VALUE_MAP\<close> and has a free-text age question. Here the first is
  the \<open>base\<close> worker and the second the \<open>ext\<close> worker; a definition that is the same text in
  both (\<open>checkRateLimit\<close>, \<open>saveSession\<close>, ...) is given once.

  Modelled: the rate limiter, the session helpers, the fail predicate, \<open>reportResult\<close>,
  \<open>handleCallbackQuery\<close> of both workers, and \<open>handleStart\<close> and \<open>handleMessage\<close> of the
  second worker (the one with the free-text question). The HTTP routing, the JSON decoding
  of the update and the transport calls to Telegram and to the webhook are outside the
  model; a call to them is recorded in the world, and its failure is only logged in the
  source.
\<close>

subsection \<open>JavaScript values and the operations the workers use on them\<close>

text \<open>
  The values that reach the code paths modelled here: \<open>undefined\<close>, strings, integers (the
  numbers come from \<open>parseInt\<close> and from integer literals; they are modelled as unbounded
  integers, \<open>NaN\<close> as the absence of a number), and the two kinds of object a property read
  on a plain object literal can return by inheritance: a built-in function and
  \<open>Object.prototype\<close> itself.
\<close>

datatype jsval = JUndefined | JStr string | JNum int | JFun | JObj

text \<open>
  The tables \<open>HOURS_MAP\<close> and \<open>CALLBACK_VALUE_MAP\<close> are object literals, so \<open>table[k]\<close>
  first looks for an own property and then walks to \<open>Object.prototype\<close>. These are the
  property names found there; all of them are functions except the accessor \<open>__proto__\<close>,
  which returns \<open>Object.prototype\<close>.
\<close>

definition object_prototype_keys :: "string list" where
  "object_prototype_keys =
     [''constructor'', ''hasOwnProperty'', ''isPrototypeOf'', ''propertyIsEnumerable'',
      ''toLocaleString'', ''toString'', ''valueOf'', ''__defineGetter__'',
      ''__defineSetter__'', ''__lookupGetter__'', ''__lookupSetter__'']"

definition js_get :: "(string \<times> jsval) list \<Rightarrow> string \<Rightarrow> jsval" where
  "js_get obj k =
     (case map_of obj k of
        Some v \<Rightarrow> v
      | None \<Rightarrow> if k = ''__proto__'' then JObj
                else if k \<in> set object_prototype_keys then JFun
                else JUndefined)"

text \<open>
  \<open>table[v]\<close> for any value \<open>v\<close>: a string is the property name itself. Every other value
  is first turned into a string (a numeral, \<open>undefined\<close>, the source text of a function,
  \<open>[object Object]\<close>), and none of those strings names a property of the tables below or
  of \<open>Object.prototype\<close>, so the read gives \<open>undefined\<close>.
\<close>

definition js_index :: "(string \<times> jsval) list \<Rightarrow> jsval \<Rightarrow> jsval" where
  "js_index obj v = (case v of JStr k \<Rightarrow> js_get obj k | _ \<Rightarrow> JUndefined)"

text \<open>\<open>a ?? b\<close>; \<open>null\<close> does not occur in the tables.\<close>

definition js_nullish_or :: "jsval \<Rightarrow> jsval \<Rightarrow> jsval" where
  "js_nullish_or a b = (if a = JUndefined then b else a)"

text \<open>Truthiness, as \<open>if (v)\<close> and \<open>!v\<close> read it.\<close>

fun js_truthy :: "jsval \<Rightarrow> bool" where
  "js_truthy JUndefined = False"
| "js_truthy (JStr s) = (s \<noteq> [])"
| "js_truthy (JNum n) = (n \<noteq> 0)"
| "js_truthy JFun = True"
| "js_truthy JObj = True"

text \<open>
  \<open>v < m\<close> for a number \<open>m\<close>. A function or an object converts to a string that is not a
  numeral, hence to \<open>NaN\<close>, and every comparison with \<open>NaN\<close> is false; so does
  \<open>undefined\<close>. The tables hold no string values, so the string case does not arise.
\<close>

fun js_lt_num :: "jsval \<Rightarrow> int \<Rightarrow> bool" where
  "js_lt_num (JNum h) m = (h < m)"
| "js_lt_num _ m = False"

text \<open>
  Two kinds of strings. The button codes, answer keys and names the program itself fixes
  or compares with are \<open>string\<close>s. A text that comes from outside and is trimmed, split or
  parsed (the text of a message, the applicant token cut out of it, the value of
  \<open>MIN_WEEKLY_HOURS\<close>) is a JavaScript string as it is: a list of UTF-16 code units, each a
  natural number (below 65536 in the source; a larger number is no white space and no
  digit). \<open>units\<close> gives the code units of a literal.
\<close>

type_synonym jstext = "nat list"

definition units :: "string \<Rightarrow> jstext" where
  "units s = map of_char s"

text \<open>
  White space, as \<open>trim\<close>, \<open>parseInt\<close> and the regular expression \<open>\s\<close> read it: the
  ECMAScript \<open>WhiteSpace\<close> and \<open>LineTerminator\<close> code points. They are tab, line feed,
  vertical tab, form feed, carriage return, space, no-break space (U+00A0), U+1680,
  U+2000 to U+200A, the line and paragraph separators U+2028 and U+2029, U+202F, U+205F,
  U+3000 and the byte order mark U+FEFF. Only the ASCII digits are digits.
\<close>

definition is_space :: "nat \<Rightarrow> bool" where
  "is_space c =
     (c \<in> set [0x09, 0x0A, 0x0B, 0x0C, 0x0D, 0x20, 0xA0, 0x1680, 0x2028, 0x2029, 0x202F,
               0x205F, 0x3000, 0xFEFF] \<or>
      (0x2000 \<le> c \<and> c \<le> 0x200A))"

definition is_digit :: "nat \<Rightarrow> bool" where
  "is_digit c = (0x30 \<le> c \<and> c \<le> 0x39)"

definition digit_val :: "nat \<Rightarrow> nat" where
  "digit_val c = c - 0x30"

definition trim :: "jstext \<Rightarrow> jstext" where
  "trim s = rev (dropWhile is_space (rev (dropWhile is_space s)))"

definition startsWith :: "'a list \<Rightarrow> 'a list \<Rightarrow> bool" where
  "startsWith s p = (take (length p) s = p)"

text \<open>
  \<open>xs.indexOf(c)\<close>, for an array and an element or for a string and a one-character
  string; \<open>None\<close> is the result \<open>-1\<close>.
\<close>

definition indexOf :: "'a list \<Rightarrow> 'a \<Rightarrow> nat option" where
  "indexOf s c = (if c \<in> set s then Some (length (takeWhile (\<lambda>x. x \<noteq> c) s)) else None)"

text \<open>
  \<open>trimmed.split(/\s+/)[1] ?? ""\<close> for a trimmed string: the second run of characters that
  are not white space, the empty string when there is none.
\<close>

definition second_part :: "jstext \<Rightarrow> jstext" where
  "second_part s =
     takeWhile (\<lambda>c. \<not> is_space c) (dropWhile is_space (dropWhile (\<lambda>c. \<not> is_space c) s))"

text \<open>
  \<open>parseInt(s, 10)\<close>: leading white space is skipped, one sign is read (\<open>-\<close> is the code
  unit 45, \<open>+\<close> is 43), then the longest run of decimal digits; anything after it is
  ignored. No digit gives \<open>NaN\<close>, here \<open>None\<close>. The result is the exact integer, where
  JavaScript rounds to a double above \<open>2^53\<close>; the rounding keeps the order with respect to
  the small constants the program compares with.
\<close>

definition parseInt :: "jstext \<Rightarrow> int option" where
  "parseInt s =
     (let s1 = dropWhile is_space s;
          neg = (case s1 of c # _ \<Rightarrow> c = 45 | [] \<Rightarrow> False);
          s2 = (case s1 of c # r \<Rightarrow> if c = 45 \<or> c = 43 then r else s1 | [] \<Rightarrow> s1);
          ds = takeWhile is_digit s2;
          n = int (foldl (\<lambda>a c. 10 * a + digit_val c) 0 ds)
      in if ds = [] then None else Some (if neg then - n else n))"

subsection \<open>Types\<close>

datatype step_base =
  B_q1_team_role | B_q2_weekly_hours | B_q3_start_date | B_q4_setup | B_q5_sop | B_completed

datatype step_ext =
  E_q1_team_role | E_q2_weekly_hours | E_q3_start_date | E_q4_setup | E_q5_sop
| E_q6_english | E_q7_age | E_q8_student_types | E_completed

text \<open>
  The failure reasons are long texts (Spanish, with emoji, in the second worker); each is
  modelled by a constructor. Every reason text is a non-empty string, so the source's test
  \<open>if (failReason)\<close> is the test for \<open>Some\<close>.
\<close>

datatype reason =
  NotTeamMember | BelowMinimumHours int | NoSetup | NoSOP | LowEnglish | AgeLimit

datatype verdict = Pass | Fail

record 's SessionState =
  applicant_token :: jstext
  step :: 's
  answers :: "string \<rightharpoonup> jsval"
  started_at :: int
  telegram_username :: "string option"

record TelegramUser =
  user_id :: int
  username :: "string option"
  first_name :: string

record TelegramCallbackQuery =
  cq_id :: string
  cq_from :: TelegramUser
  cq_data :: "string option"

record ResultPayload =
  p_applicant_token :: jstext
  p_telegram_chat_id :: int
  p_telegram_username :: "string option"
  p_result :: verdict
  p_reason :: "reason option"
  p_answers :: "string \<rightharpoonup> jsval"
  p_completed_at :: int

text \<open>A question of the catalog: its answer key and the rows of button codes (labels left out).\<close>

record Question =
  key :: string
  buttons :: "string list list"

record Env =
  BOT_TOKEN :: string
  MAKE_WEBHOOK_URL :: string
  MARIA_LINK :: string
  MIN_WEEKLY_HOURS :: "jstext option"

subsection \<open>Constants\<close>

definition HOURS_MAP_base :: "(string \<times> jsval) list" where
  "HOURS_MAP_base = [(''full_time'', JNum 30), (''part_time'', JNum 20), (''less_than_15'', JNum 0)]"

definition HOURS_MAP_ext :: "(string \<times> jsval) list" where
  "HOURS_MAP_ext = [(''full_time'', JNum 30), (''part_time'', JNum 20), (''low'', JNum 0)]"

subsection \<open>The fail predicate\<close>

fun checkFailCondition_base :: "step_base \<Rightarrow> jsval \<Rightarrow> int \<Rightarrow> reason option" where
  "checkFailCondition_base B_q1_team_role answer minWeeklyHours =
     (if answer = JStr ''no'' then Some NotTeamMember else None)"
| "checkFailCondition_base B_q2_weekly_hours answer minWeeklyHours =
     (let hours = js_nullish_or (js_index HOURS_MAP_base answer) (JNum 0)
      in if js_lt_num hours minWeeklyHours then Some (BelowMinimumHours minWeeklyHours) else None)"
| "checkFailCondition_base B_q4_setup answer minWeeklyHours =
     (if answer = JStr ''no'' then Some NoSetup else None)"
| "checkFailCondition_base B_q5_sop answer minWeeklyHours =
     (if answer = JStr ''no'' then Some NoSOP else None)"
| "checkFailCondition_base _ answer minWeeklyHours = None"

fun checkFailCondition_ext :: "step_ext \<Rightarrow> jsval \<Rightarrow> int \<Rightarrow> reason option" where
  "checkFailCondition_ext E_q1_team_role answer minWeeklyHours =
     (if answer = JStr ''no'' then Some NotTeamMember else None)"
| "checkFailCondition_ext E_q2_weekly_hours answer minWeeklyHours =
     (let hours = js_nullish_or (js_index HOURS_MAP_ext answer) (JNum 0)
      in if js_lt_num hours minWeeklyHours then Some (BelowMinimumHours minWeeklyHours) else None)"
| "checkFailCondition_ext E_q4_setup answer minWeeklyHours =
     (if answer = JStr ''no'' then Some NoSetup else None)"
| "checkFailCondition_ext E_q5_sop answer minWeeklyHours =
     (if answer = JStr ''no'' then Some NoSOP else None)"
| "checkFailCondition_ext E_q6_english answer minWeeklyHours =
     (if answer = JStr ''low'' then Some LowEnglish else None)"
| "checkFailCondition_ext _ answer minWeeklyHours = None"

text \<open>
  The threshold, as both \<open>handleCallbackQuery\<close> compute it on every call:
  \<open>parseInt(env.MIN_WEEKLY_HOURS ?? "15", 10) || 15\<close>.
\<close>

definition minWeeklyHours :: "Env \<Rightarrow> int" where
  "minWeeklyHours env =
     (case parseInt (case MIN_WEEKLY_HOURS env of None \<Rightarrow> units ''15'' | Some s \<Rightarrow> s) of
        None \<Rightarrow> 15
      | Some n \<Rightarrow> if n = 0 then 15 else n)"

subsection \<open>The world the handlers act on\<close>

text \<open>
  What a handler sends: the kinds of text it passes to \<open>sendMessage\<close> (the texts themselves
  are left out; \<open>QuestionText i\<close> is the text of question \<open>i\<close>, \<open>FailNotice r\<close> the
  message built from the reason \<open>r\<close>, \<open>PassNotice l\<close> the congratulation with the
  coordinator's link \<open>l\<close>).
\<close>

datatype message =
  RateLimitNotice | SessionExpiredNotice | QuestionText nat | PassNotice string
| FailNotice "reason option" | AgeReprompt | UseButtonsNotice | UseLinkNotice | NoSessionNotice
| HelpNotice | StartHintNotice

datatype logentry =
  LogNoSeparator string | LogNoPrefixMap string | LogUnknownSuffix string string
| LogUnknownStep

text \<open>
  The key-value namespace holds a session under the key \<open>String(chatId)\<close> and a rate-limit
  window under \<open>rl:chatId\<close>; the two families of keys never meet, so they are two maps. An
  absent, expired or unreadable entry is \<open>None\<close>. The remaining fields record, in order,
  the calls made to the outside: \<open>sendMessage\<close> (chat, text, inline keyboard),
  \<open>answerCallbackQuery\<close>, the POST to the result webhook (URL, payload) and
  \<open>console.error\<close>.
\<close>

record 's world =
  kv_sessions :: "int \<rightharpoonup> 's SessionState"
  kv_ratelimit :: "int \<rightharpoonup> int list"
  sent :: "(int \<times> message \<times> string list list option) list"
  acks :: "string list"
  posts :: "(string \<times> ResultPayload) list"
  errlog :: "logentry list"

subsection \<open>The catalogs\<close>

definition QUESTIONS_base :: "Question list" where
  "QUESTIONS_base =
     [\<lparr>key = ''team_role'', buttons = [[''q1:yes''], [''q1:no'']]\<rparr>,
      \<lparr>key = ''weekly_availability'',
       buttons = [[''q2:full_time''], [''q2:part_time''], [''q2:less_than_15'']]\<rparr>,
      \<lparr>key = ''start_date'',
       buttons = [[''q3:immediately''], [''q3:one_two_weeks''], [''q3:one_month_plus'']]\<rparr>,
      \<lparr>key = ''setup'', buttons = [[''q4:yes''], [''q4:no'']]\<rparr>,
      \<lparr>key = ''sop'', buttons = [[''q5:yes''], [''q5:no'']]\<rparr>]"

definition STEP_ORDER_base :: "step_base list" where
  "STEP_ORDER_base = [B_q1_team_role, B_q2_weekly_hours, B_q3_start_date, B_q4_setup, B_q5_sop]"

fun STEP_PREFIX_base :: "step_base \<Rightarrow> string" where
  "STEP_PREFIX_base B_q1_team_role = ''q1''"
| "STEP_PREFIX_base B_q2_weekly_hours = ''q2''"
| "STEP_PREFIX_base B_q3_start_date = ''q3''"
| "STEP_PREFIX_base B_q4_setup = ''q4''"
| "STEP_PREFIX_base B_q5_sop = ''q5''"
| "STEP_PREFIX_base B_completed = []"

definition QUESTIONS_ext :: "Question list" where
  "QUESTIONS_ext =
     [\<lparr>key = ''team_role'', buttons = [[''Q1_YES''], [''Q1_NO'']]\<rparr>,
      \<lparr>key = ''weekly_availability'', buttons = [[''Q2_FT''], [''Q2_PT''], [''Q2_LOW'']]\<rparr>,
      \<lparr>key = ''start_date'', buttons = [[''Q3_NOW''], [''Q3_SOON''], [''Q3_LATER'']]\<rparr>,
      \<lparr>key = ''setup'', buttons = [[''Q4_YES''], [''Q4_NO'']]\<rparr>,
      \<lparr>key = ''sop'', buttons = [[''Q5_YES''], [''Q5_NO'']]\<rparr>,
      \<lparr>key = ''english_level'', buttons = [[''Q6_GOOD''], [''Q6_OK''], [''Q6_LOW'']]\<rparr>,
      \<lparr>key = ''age'', buttons = []\<rparr>,
      \<lparr>key = ''student_types'',
       buttons = [[''Q8_KIDS''], [''Q8_TEENS''], [''Q8_ADULTS''], [''Q8_ALL'']]\<rparr>]"

definition STEP_ORDER_ext :: "step_ext list" where
  "STEP_ORDER_ext =
     [E_q1_team_role, E_q2_weekly_hours, E_q3_start_date, E_q4_setup, E_q5_sop,
      E_q6_english, E_q7_age, E_q8_student_types]"

fun STEP_PREFIX_ext :: "step_ext \<Rightarrow> string" where
  "STEP_PREFIX_ext E_q1_team_role = ''Q1''"
| "STEP_PREFIX_ext E_q2_weekly_hours = ''Q2''"
| "STEP_PREFIX_ext E_q3_start_date = ''Q3''"
| "STEP_PREFIX_ext E_q4_setup = ''Q4''"
| "STEP_PREFIX_ext E_q5_sop = ''Q5''"
| "STEP_PREFIX_ext E_q6_english = ''Q6''"
| "STEP_PREFIX_ext E_q7_age = ''Q7''"
| "STEP_PREFIX_ext E_q8_student_types = ''Q8''"
| "STEP_PREFIX_ext E_completed = []"

text \<open>
  The outer table is read only with a prefix that equals the \<open>STEP_PREFIX\<close> of a live step
  (\<open>Q1\<close> to \<open>Q8\<close>), none of which is an inherited property name, so that read is the own
  property or \<open>undefined\<close>. The inner tables are read with the text after the underscore
  of the button code, whatever it is.
\<close>

definition CALLBACK_VALUE_MAP :: "(string \<times> (string \<times> jsval) list) list" where
  "CALLBACK_VALUE_MAP =
     [(''Q1'', [(''YES'', JStr ''yes''), (''NO'', JStr ''no'')]),
      (''Q2'', [(''FT'', JStr ''full_time''), (''PT'', JStr ''part_time''), (''LOW'', JStr ''low'')]),
      (''Q3'', [(''NOW'', JStr ''now''), (''SOON'', JStr ''soon''), (''LATER'', JStr ''later'')]),
      (''Q4'', [(''YES'', JStr ''yes''), (''NO'', JStr ''no'')]),
      (''Q5'', [(''YES'', JStr ''yes''), (''NO'', JStr ''no'')]),
      (''Q6'', [(''GOOD'', JStr ''good''), (''OK'', JStr ''ok''), (''LOW'', JStr ''low'')]),
      (''Q8'', [(''KIDS'', JStr ''kids''), (''TEENS'', JStr ''teens''),
               (''ADULTS'', JStr ''adults''), (''ALL'', JStr ''all'')])]"

definition RATE_LIMIT_WINDOW_MS :: int where
  "RATE_LIMIT_WINDOW_MS = 10000"

definition RATE_LIMIT_MAX_ACTIONS :: nat where
  "RATE_LIMIT_MAX_ACTIONS = 5"

subsection \<open>Key-value helpers\<close>

text \<open>
  \<open>JSON.stringify\<close> leaves out a property whose value is \<open>undefined\<close> or a function, so
  such an answer does not reach the store or the webhook.
\<close>

definition json_answers :: "(string \<rightharpoonup> jsval) \<Rightarrow> (string \<rightharpoonup> jsval)" where
  "json_answers a =
     (\<lambda>k. case a k of Some JFun \<Rightarrow> None | Some JUndefined \<Rightarrow> None | v \<Rightarrow> v)"

definition loadSession :: "int \<Rightarrow> 's world \<Rightarrow> 's SessionState option" where
  "loadSession chatId w = kv_sessions w chatId"

definition saveSession :: "int \<Rightarrow> 's SessionState \<Rightarrow> 's world \<Rightarrow> 's world" where
  "saveSession chatId state w =
     w\<lparr>kv_sessions := (kv_sessions w)(chatId \<mapsto> state\<lparr>answers := json_answers (answers state)\<rparr>)\<rparr>"

definition deleteSession :: "int \<Rightarrow> 's world \<Rightarrow> 's world" where
  "deleteSession chatId w = w\<lparr>kv_sessions := (kv_sessions w)(chatId := None)\<rparr>"

subsection \<open>Rate limiting\<close>

text \<open>
  \<open>now\<close> is the value \<open>Date.now()\<close> returns in the call. The window is written with a
  time to live of 60 seconds; an entry that has expired held only timestamps older than the
  10 seconds the filter keeps, so reading it as absent gives the same result and expiry is
  not modelled. A call is one step: the read and the write of two calls for the same chat
  are not interleaved.
\<close>

definition checkRateLimit :: "int \<Rightarrow> int \<Rightarrow> 's world \<Rightarrow> bool \<times> 's world" where
  "checkRateLimit chatId now w =
     (let timestamps = (case kv_ratelimit w chatId of None \<Rightarrow> [] | Some ts \<Rightarrow> ts);
          recent = filter (\<lambda>t. now - t < RATE_LIMIT_WINDOW_MS) timestamps
      in if length recent \<ge> RATE_LIMIT_MAX_ACTIONS then (False, w)
         else (True, w\<lparr>kv_ratelimit := (kv_ratelimit w)(chatId \<mapsto> recent @ [now])\<rparr>))"

text \<open>
  A run of calls for one chat, one after the other, at the times \<open>nows\<close>: the times of the
  calls that were allowed.
\<close>

fun admitted :: "int \<Rightarrow> int list \<Rightarrow> 's world \<Rightarrow> int list" where
  "admitted chatId [] w = []"
| "admitted chatId (now # nows) w =
     (case checkRateLimit chatId now w of
        (True, w') \<Rightarrow> now # admitted chatId nows w'
      | (False, w') \<Rightarrow> admitted chatId nows w')"

text \<open>The events of a list of times that fall in the 10 seconds up to and including \<open>T\<close>.\<close>

definition in_trailing_window :: "int \<Rightarrow> int list \<Rightarrow> int list" where
  "in_trailing_window T ts = filter (\<lambda>t. t \<le> T \<and> T - t < RATE_LIMIT_WINDOW_MS) ts"

subsection \<open>Telegram wrappers\<close>

definition sendMessage ::
  "int \<Rightarrow> message \<Rightarrow> string list list option \<Rightarrow> 's world \<Rightarrow> 's world" where
  "sendMessage chatId msg replyMarkup w = w\<lparr>sent := sent w @ [(chatId, msg, replyMarkup)]\<rparr>"

definition answerCallbackQuery :: "string \<Rightarrow> 's world \<Rightarrow> 's world" where
  "answerCallbackQuery callbackQueryId w = w\<lparr>acks := acks w @ [callbackQueryId]\<rparr>"

definition logError :: "logentry \<Rightarrow> 's world \<Rightarrow> 's world" where
  "logError e w = w\<lparr>errlog := errlog w @ [e]\<rparr>"

definition postWebhook :: "string \<Rightarrow> ResultPayload \<Rightarrow> 's world \<Rightarrow> 's world" where
  "postWebhook url payload w =
     w\<lparr>posts := posts w @ [(url, payload\<lparr>p_answers := json_answers (p_answers payload)\<rparr>)]\<rparr>"

subsection \<open>Conversation helpers\<close>

definition sendQuestion_base :: "int \<Rightarrow> nat \<Rightarrow> 's world \<Rightarrow> 's world" where
  "sendQuestion_base chatId questionIndex w =
     (let question = QUESTIONS_base ! questionIndex
      in sendMessage chatId (QuestionText questionIndex) (Some (buttons question)) w)"

definition sendQuestion_ext :: "int \<Rightarrow> nat \<Rightarrow> 's world \<Rightarrow> 's world" where
  "sendQuestion_ext chatId questionIndex w =
     (let question = QUESTIONS_ext ! questionIndex
      in if buttons question = [] then sendMessage chatId (QuestionText questionIndex) None w
         else sendMessage chatId (QuestionText questionIndex) (Some (buttons question)) w)"

text \<open>
  \<open>reportResult\<close> is the same sequence of four calls in both workers: the POST (not
  awaited), the message to the user, the write of the session with \<open>step = "completed"\<close>,
  the delete. The sequence is kept as a list so that the world after any prefix of it can
  be named; \<open>reportResult\<close> runs the whole list. \<open>completed\<close> is the worker's terminal
  step and \<open>now\<close> the time read for \<open>completed_at\<close>.
\<close>

definition reportResult_ops ::
  "'s \<Rightarrow> verdict \<Rightarrow> reason option \<Rightarrow> 's SessionState \<Rightarrow> int \<Rightarrow> TelegramUser \<Rightarrow> Env \<Rightarrow> int
     \<Rightarrow> ('s world \<Rightarrow> 's world) list" where
  "reportResult_ops completed result reason state chatId from env now =
     [postWebhook (MAKE_WEBHOOK_URL env)
        \<lparr>p_applicant_token = applicant_token state, p_telegram_chat_id = chatId,
         p_telegram_username = username from, p_result = result, p_reason = reason,
         p_answers = answers state, p_completed_at = now\<rparr>,
      (if result = Pass then sendMessage chatId (PassNotice (MARIA_LINK env)) None
       else sendMessage chatId (FailNotice reason) None),
      saveSession chatId (state\<lparr>step := completed\<rparr>),
      deleteSession chatId]"

definition run_ops :: "('w \<Rightarrow> 'w) list \<Rightarrow> 'w \<Rightarrow> 'w" where
  "run_ops ops w = foldl (\<lambda>v f. f v) w ops"

definition reportResult ::
  "'s \<Rightarrow> verdict \<Rightarrow> reason option \<Rightarrow> 's SessionState \<Rightarrow> int \<Rightarrow> TelegramUser \<Rightarrow> Env \<Rightarrow> int
     \<Rightarrow> 's world \<Rightarrow> 's world" where
  "reportResult completed result reason state chatId from env now w =
     run_ops (reportResult_ops completed result reason state chatId from env now) w"

subsection \<open>The handlers\<close>

text \<open>
  Each handler takes the event, the configuration, the time \<open>now\<close> the clock shows while
  it runs, and the world, and returns the world it leaves.
\<close>

definition handleCallbackQuery_base ::
  "TelegramCallbackQuery \<Rightarrow> Env \<Rightarrow> int \<Rightarrow> step_base world \<Rightarrow> step_base world" where
  "handleCallbackQuery_base cq env now w =
     (let chatId = user_id (cq_from cq);
          callbackQueryId = cq_id cq;
          data = (case cq_data cq of None \<Rightarrow> [] | Some d \<Rightarrow> d);
          w1 = answerCallbackQuery callbackQueryId w
      in case checkRateLimit chatId now w1 of
           (False, w2) \<Rightarrow> sendMessage chatId RateLimitNotice None w2
         | (True, w2) \<Rightarrow>
       (case loadSession chatId w2 of
          None \<Rightarrow> sendMessage chatId SessionExpiredNotice None w2
        | Some state \<Rightarrow>
            if step state = B_completed then w2
            else
              (case indexOf data (CHR '':'') of
                 None \<Rightarrow> logError (LogNoSeparator data) w2
               | Some colonIdx \<Rightarrow>
                   let qPrefix = take colonIdx data;
                       answerValue = drop (colonIdx + 1) data;
                       expectedPrefix = STEP_PREFIX_base (step state)
                   in if qPrefix \<noteq> expectedPrefix then w2
                      else
                        (case indexOf STEP_ORDER_base (step state) of
                           None \<Rightarrow> logError LogUnknownStep w2
                         | Some stepIndex \<Rightarrow>
                             let question = QUESTIONS_base ! stepIndex;
                                 state1 = state\<lparr>answers :=
                                            (answers state)(key question \<mapsto> JStr answerValue)\<rparr>
                             in (case checkFailCondition_base (step state) (JStr answerValue)
                                        (minWeeklyHours env) of
                                   Some failReason \<Rightarrow>
                                     reportResult B_completed Fail (Some failReason) state1
                                       chatId (cq_from cq) env now w2
                                 | None \<Rightarrow>
                                     let nextStepIndex = stepIndex + 1
                                     in if nextStepIndex \<ge> length STEP_ORDER_base
                                        then reportResult B_completed Pass None state1
                                               chatId (cq_from cq) env now w2
                                        else
                                          sendQuestion_base chatId nextStepIndex
                                            (saveSession chatId
                                               (state1\<lparr>step := STEP_ORDER_base ! nextStepIndex\<rparr>)
                                               w2))))))"

definition handleCallbackQuery_ext ::
  "TelegramCallbackQuery \<Rightarrow> Env \<Rightarrow> int \<Rightarrow> step_ext world \<Rightarrow> step_ext world" where
  "handleCallbackQuery_ext cq env now w =
     (let chatId = user_id (cq_from cq);
          callbackQueryId = cq_id cq;
          data = (case cq_data cq of None \<Rightarrow> [] | Some d \<Rightarrow> d);
          w1 = answerCallbackQuery callbackQueryId w
      in case checkRateLimit chatId now w1 of
           (False, w2) \<Rightarrow> sendMessage chatId RateLimitNotice None w2
         | (True, w2) \<Rightarrow>
       (case loadSession chatId w2 of
          None \<Rightarrow> sendMessage chatId SessionExpiredNotice None w2
        | Some state \<Rightarrow>
            if step state = E_completed then w2
            else
              (case indexOf data (CHR ''_'') of
                 None \<Rightarrow> logError (LogNoSeparator data) w2
               | Some underscoreIdx \<Rightarrow>
                   let qPrefix = take underscoreIdx data;
                       callbackSuffix = drop (underscoreIdx + 1) data;
                       expectedPrefix = STEP_PREFIX_ext (step state)
                   in if qPrefix \<noteq> expectedPrefix then w2
                      else
                        (case map_of CALLBACK_VALUE_MAP qPrefix of
                           None \<Rightarrow> logError (LogNoPrefixMap qPrefix) w2
                         | Some prefixMap \<Rightarrow>
                             let answerValue = js_get prefixMap callbackSuffix
                             in if \<not> js_truthy answerValue
                                then logError (LogUnknownSuffix callbackSuffix qPrefix) w2
                                else
                        (case indexOf STEP_ORDER_ext (step state) of
                           None \<Rightarrow> logError LogUnknownStep w2
                         | Some stepIndex \<Rightarrow>
                             let question = QUESTIONS_ext ! stepIndex;
                                 state1 = state\<lparr>answers :=
                                            (answers state)(key question \<mapsto> answerValue)\<rparr>
                             in (case checkFailCondition_ext (step state) answerValue
                                        (minWeeklyHours env) of
                                   Some failReason \<Rightarrow>
                                     reportResult E_completed Fail (Some failReason) state1
                                       chatId (cq_from cq) env now w2
                                 | None \<Rightarrow>
                                     let nextStepIndex = stepIndex + 1
                                     in if nextStepIndex \<ge> length STEP_ORDER_ext
                                        then reportResult E_completed Pass None state1
                                               chatId (cq_from cq) env now w2
                                        else
                                          sendQuestion_ext chatId nextStepIndex
                                            (saveSession chatId
                                               (state1\<lparr>step := STEP_ORDER_ext ! nextStepIndex\<rparr>)
                                               w2)))))))"

definition handleStart_ext ::
  "int \<Rightarrow> TelegramUser \<Rightarrow> jstext \<Rightarrow> Env \<Rightarrow> int \<Rightarrow> step_ext world \<Rightarrow> step_ext world" where
  "handleStart_ext chatId from token env now w =
     (if token = [] \<or> length (trim token) < 4 then sendMessage chatId UseLinkNotice None w
      else
        let state = \<lparr>applicant_token = trim token, step = E_q1_team_role,
                     answers = Map.empty, started_at = now,
                     telegram_username = username from\<rparr>
        in sendQuestion_ext chatId 0 (saveSession chatId state w))"

text \<open>
  The age limit of the free-text question is the literal \<open>35\<close> in the source
  (\<open>if (parsed >= 35)\<close>); the declared bounds are the literals \<open>10\<close> and \<open>80\<close>.
\<close>

definition handleMessage_ext ::
  "int \<Rightarrow> TelegramUser \<Rightarrow> jstext option \<Rightarrow> Env \<Rightarrow> int \<Rightarrow> step_ext world \<Rightarrow> step_ext world" where
  "handleMessage_ext chatId from txt env now w =
     (case checkRateLimit chatId now w of
        (False, w1) \<Rightarrow> sendMessage chatId RateLimitNotice None w1
      | (True, w1) \<Rightarrow>
          let trimmed = trim (case txt of None \<Rightarrow> [] | Some t \<Rightarrow> t)
          in if startsWith trimmed (units ''/start'') then
               (let token = second_part trimmed
                in if token = [] then sendMessage chatId UseLinkNotice None w1
                   else handleStart_ext chatId from token env now w1)
             else if startsWith trimmed (units ''/restart'') then
               (case loadSession chatId w1 of
                  None \<Rightarrow> sendMessage chatId NoSessionNotice None w1
                | Some session \<Rightarrow>
                    if applicant_token session \<noteq> []
                    then handleStart_ext chatId from (applicant_token session) env now w1
                    else sendMessage chatId NoSessionNotice None w1)
             else if startsWith trimmed (units ''/help'') then sendMessage chatId HelpNotice None w1
             else
               (case loadSession chatId w1 of
                  None \<Rightarrow> sendMessage chatId StartHintNotice None w1
                | Some session \<Rightarrow>
                    if step session = E_completed
                    then sendMessage chatId StartHintNotice None w1
                    else if step session = E_q7_age then
                      (case parseInt trimmed of
                         None \<Rightarrow> sendMessage chatId AgeReprompt None w1
                       | Some parsed \<Rightarrow>
                           if parsed < 10 \<or> parsed > 80
                           then sendMessage chatId AgeReprompt None w1
                           else
                             let session1 = session\<lparr>answers :=
                                              (answers session)(''age'' \<mapsto> JNum parsed)\<rparr>
                             in if parsed \<ge> 35
                                then reportResult E_completed Fail (Some AgeLimit) session1
                                       chatId from env now w1
                                else
                                  let nextStepIndex =
                                        (case indexOf STEP_ORDER_ext E_q7_age of
                                           None \<Rightarrow> 0 | Some i \<Rightarrow> i + 1)
                                  in sendQuestion_ext chatId nextStepIndex
                                       (saveSession chatId
                                          (session1\<lparr>step := STEP_ORDER_ext ! nextStepIndex\<rparr>)
                                          w1))
                    else sendMessage chatId UseButtonsNotice None w1))"

subsection \<open>Notions used to state the properties\<close>

text \<open>The rate-limit window stored for a chat, as \<open>checkRateLimit\<close> reads it.\<close>

definition stored_window :: "'s world \<Rightarrow> int \<Rightarrow> int list" where
  "stored_window w chatId = (case kv_ratelimit w chatId of None \<Rightarrow> [] | Some ts \<Rightarrow> ts)"

definition window_bounded :: "int list \<Rightarrow> bool" where
  "window_bounded ts = (\<forall>T. length (in_trailing_window T ts) \<le> RATE_LIMIT_MAX_ACTIONS)"

text \<open>
  The code of a button press (\<open>cq.data ?? ""\<close>), and the two parts both workers cut it
  into at the first separator; \<open>None\<close> when the code has no separator.
\<close>

definition press_data :: "TelegramCallbackQuery \<Rightarrow> string" where
  "press_data cq = (case cq_data cq of None \<Rightarrow> [] | Some d \<Rightarrow> d)"

definition callback_prefix :: "char \<Rightarrow> string \<Rightarrow> string option" where
  "callback_prefix sep data = map_option (\<lambda>i. take i data) (indexOf data sep)"

definition callback_suffix :: "char \<Rightarrow> string \<Rightarrow> string option" where
  "callback_suffix sep data = map_option (\<lambda>i. drop (i + 1) data) (indexOf data sep)"

text \<open>
  The canonical value \<open>CALLBACK_VALUE_MAP\<close> lists for a prefix and a suffix, and the
  property names a table inherits without listing them.
\<close>

definition catalog_value :: "string \<Rightarrow> string \<Rightarrow> jsval option" where
  "catalog_value prefix suffix =
     (case map_of CALLBACK_VALUE_MAP prefix of None \<Rightarrow> None | Some m \<Rightarrow> map_of m suffix)"

definition inherited_key :: "string \<Rightarrow> bool" where
  "inherited_key k = (k = ''__proto__'' \<or> k \<in> set object_prototype_keys)"

text \<open>
  The text of a message as \<open>handleMessage\<close> reads it (\<open>(text ?? "").trim()\<close>), and the
  texts it treats as commands before it looks at the session.
\<close>

definition message_text :: "jstext option \<Rightarrow> jstext" where
  "message_text txt = trim (case txt of None \<Rightarrow> [] | Some t \<Rightarrow> t)"

definition is_command :: "jstext \<Rightarrow> bool" where
  "is_command t =
     (startsWith t (units ''/start'') \<or> startsWith t (units ''/restart'') \<or>
      startsWith t (units ''/help''))"

text \<open>
  A configuration that gives no usable minimum: \<open>MIN_WEEKLY_HOURS\<close> is absent, or
  \<open>parseInt\<close> finds no number in it, or finds 0.
\<close>

definition min_hours_unusable :: "Env \<Rightarrow> bool" where
  "min_hours_unusable env =
     (case MIN_WEEKLY_HOURS env of
        None \<Rightarrow> True
      | Some t \<Rightarrow> parseInt t = None \<or> parseInt t = Some 0)"

subsection \<open>Concrete inputs\<close>

definition ex_user :: TelegramUser where
  "ex_user = \<lparr>user_id = 7, username = Some ''ana'', first_name = ''Ana''\<rparr>"

definition ex_env :: Env where
  "ex_env = \<lparr>BOT_TOKEN = ''123:abc'', MAKE_WEBHOOK_URL = ''https://hook.example'',
             MARIA_LINK = ''https://t.me/maria'', MIN_WEEKLY_HOURS = None\<rparr>"

definition ex_session :: "'s \<Rightarrow> 's SessionState" where
  "ex_session st = \<lparr>applicant_token = units ''tok-1234'', step = st, answers = Map.empty,
                    started_at = 0, telegram_username = Some ''ana''\<rparr>"

definition ex_world :: "'s \<Rightarrow> 's world" where
  "ex_world st = \<lparr>kv_sessions = [7 \<mapsto> ex_session st], kv_ratelimit = Map.empty,
                  sent = [], acks = [], posts = [], errlog = []\<rparr>"

definition ex_press :: "string \<Rightarrow> TelegramCallbackQuery" where
  "ex_press d = \<lparr>cq_id = ''cb1'', cq_from = ex_user, cq_data = Some d\<rparr>"

definition ex_limited :: "int list \<Rightarrow> step_ext world" where
  "ex_limited ts = \<lparr>kv_sessions = Map.empty, kv_ratelimit = [7 \<mapsto> ts],
                    sent = [], acks = [], posts = [], errlog = []\<rparr>"

lemmas ex_defs = ex_user_def ex_env_def ex_session_def ex_world_def ex_press_def ex_limited_def

lemmas js_defs = js_get_def js_index_def js_nullish_or_def object_prototype_keys_def

lemmas str_defs = units_def indexOf_def trim_def startsWith_def second_part_def parseInt_def
  is_space_def is_digit_def digit_val_def

lemmas io_defs = sendMessage_def answerCallbackQuery_def logError_def postWebhook_def
  loadSession_def saveSession_def deleteSession_def checkRateLimit_def
  RATE_LIMIT_WINDOW_MS_def RATE_LIMIT_MAX_ACTIONS_def reportResult_def reportResult_ops_def
  run_ops_def json_answers_def

lemmas stmt_defs = stored_window_def in_trailing_window_def press_data_def
  callback_prefix_def callback_suffix_def catalog_value_def inherited_key_def
  message_text_def is_command_def

lemmas base_defs = handleCallbackQuery_base_def STEP_ORDER_base_def QUESTIONS_base_def
  sendQuestion_base_def HOURS_MAP_base_def minWeeklyHours_def

lemmas ext_defs = handleCallbackQuery_ext_def handleMessage_ext_def handleStart_ext_def
  STEP_ORDER_ext_def QUESTIONS_ext_def sendQuestion_ext_def HOURS_MAP_ext_def
  CALLBACK_VALUE_MAP_def minWeeklyHours_def

section \<open>Properties\<close>

subsection \<open>The fail predicate\<close>

text \<open>
  Claim C6. For every minimum \<open>m\<close> and every availability answer that \<open>HOURS_MAP\<close> lists
  with \<open>h\<close> hours, in either worker, the fail predicate returns a reason exactly when
  \<open>h < m\<close>: an answer worth exactly \<open>m\<close> hours passes, one worth \<open>m - 1\<close> fails.
\<close>

theorem hours_boundary:
  "(map_of HOURS_MAP_base a = Some (JNum h) \<longrightarrow>
      (checkFailCondition_base B_q2_weekly_hours (JStr a) m \<noteq> None) = (h < m)) \<and>
   (map_of HOURS_MAP_ext a = Some (JNum h) \<longrightarrow>
      (checkFailCondition_ext E_q2_weekly_hours (JStr a) m \<noteq> None) = (h < m))"
  by (auto simp add: js_index_def js_get_def js_nullish_or_def)

theorem hours_boundary_witness:
  "map_of HOURS_MAP_base ''part_time'' = Some (JNum 20) \<and>
   map_of HOURS_MAP_ext ''part_time'' = Some (JNum 20) \<and>
   checkFailCondition_base B_q2_weekly_hours (JStr ''part_time'') 20 = None \<and>
   checkFailCondition_ext E_q2_weekly_hours (JStr ''part_time'') 20 = None \<and>
   checkFailCondition_base B_q2_weekly_hours (JStr ''part_time'') 21 \<noteq> None \<and>
   checkFailCondition_ext E_q2_weekly_hours (JStr ''part_time'') 21 \<noteq> None"
proof -
  have b: "map_of HOURS_MAP_base ''part_time'' = Some (JNum 20)"
    by (simp add: HOURS_MAP_base_def)
  have e: "map_of HOURS_MAP_ext ''part_time'' = Some (JNum 20)"
    by (simp add: HOURS_MAP_ext_def)
  from b e hours_boundary[of "''part_time''" 20 20] hours_boundary[of "''part_time''" 20 21]
  show ?thesis by simp
qed

text \<open>
  An availability answer that \<open>HOURS_MAP\<close> does not list counts as 0 hours, provided it
  is not the name of an inherited property.
\<close>

lemma unlisted_answer_counts_zero:
  "(map_of HOURS_MAP_base a = None \<and> \<not> inherited_key a \<longrightarrow>
      (checkFailCondition_base B_q2_weekly_hours (JStr a) m \<noteq> None) = (0 < m)) \<and>
   (map_of HOURS_MAP_ext a = None \<and> \<not> inherited_key a \<longrightarrow>
      (checkFailCondition_ext E_q2_weekly_hours (JStr a) m \<noteq> None) = (0 < m))"
  by (simp add: js_index_def js_get_def js_nullish_or_def inherited_key_def)

text \<open>
  Claim C10. The claim fails on the code at an answer that names an inherited property.
  \<open>constructor\<close> is not a key of \<open>HOURS_MAP\<close>, yet \<open>HOURS_MAP["constructor"]\<close> is the
  inherited function, not \<open>undefined\<close>; \<open>?? 0\<close> leaves it in place and the comparison with
  the minimum is false, so the predicate returns no reason although the minimum is 15. In
  the first worker the answer is the text after the colon of the button code, so the code
  \<open>q2:constructor\<close> takes a session from the availability question to the next one.
\<close>

theorem inherited_key_passes_hours:
  "map_of HOURS_MAP_base ''constructor'' = None \<and>
   checkFailCondition_base B_q2_weekly_hours (JStr ''constructor'') 15 = None \<and>
   map_of HOURS_MAP_ext ''constructor'' = None \<and>
   checkFailCondition_ext E_q2_weekly_hours (JStr ''constructor'') 15 = None \<and>
   checkFailCondition_base B_q2_weekly_hours (JStr ''sometimes'') 15
     = Some (BelowMinimumHours 15) \<and>
   map_option step
     (kv_sessions (handleCallbackQuery_base (ex_press ''q2:constructor'') ex_env 0
                     (ex_world B_q2_weekly_hours)) 7) = Some B_q3_start_date"
  by (simp add: base_defs HOURS_MAP_ext_def ex_defs js_defs str_defs io_defs Let_def)

subsection \<open>The rate limiter\<close>

lemma checkRateLimit_reject:
  "RATE_LIMIT_MAX_ACTIONS
     \<le> length (filter (\<lambda>t. now - t < RATE_LIMIT_WINDOW_MS) (stored_window w c))
   \<Longrightarrow> checkRateLimit c now w = (False, w)"
  by (simp add: checkRateLimit_def stored_window_def Let_def)

lemma checkRateLimit_admit:
  "length (filter (\<lambda>t. now - t < RATE_LIMIT_WINDOW_MS) (stored_window w c))
     < RATE_LIMIT_MAX_ACTIONS
   \<Longrightarrow> checkRateLimit c now w =
       (True, w\<lparr>kv_ratelimit := (kv_ratelimit w)(c \<mapsto>
          filter (\<lambda>t. now - t < RATE_LIMIT_WINDOW_MS) (stored_window w c) @ [now])\<rparr>)"
  by (simp add: checkRateLimit_def stored_window_def Let_def)

text \<open>
  The source's filter has no upper bound on a timestamp; on a window whose timestamps are
  not in the future it selects the trailing window.
\<close>

lemma recent_is_trailing_window:
  "\<forall>t\<in>set ts. t \<le> now \<Longrightarrow>
   filter (\<lambda>t. now - t < RATE_LIMIT_WINDOW_MS) ts = in_trailing_window now ts"
  by (auto simp: in_trailing_window_def intro: filter_cong)

lemma admitted_subset: "set (admitted c nows w) \<subseteq> set nows"
  by (induction nows arbitrary: w) (auto split: prod.splits bool.splits)

lemma in_trailing_window_append:
  "in_trailing_window T (xs @ ys) = in_trailing_window T xs @ in_trailing_window T ys"
  by (simp add: in_trailing_window_def)

lemma in_trailing_window_later:
  "\<forall>t\<in>set ys. T < t \<Longrightarrow> in_trailing_window T ys = []"
  by (auto simp: in_trailing_window_def filter_empty_conv)

lemma in_trailing_window_recent:
  "n \<le> T \<Longrightarrow>
   in_trailing_window T (filter (\<lambda>t. n - t < RATE_LIMIT_WINDOW_MS) st) = in_trailing_window T st"
  by (auto simp: in_trailing_window_def intro: filter_cong)

lemma short_window_bounded: "length ts \<le> RATE_LIMIT_MAX_ACTIONS \<Longrightarrow> window_bounded ts"
  unfolding window_bounded_def in_trailing_window_def
  by (meson le_trans length_filter_le)

text \<open>
  The invariant of a run: the stored window followed by the calls allowed so far never has
  more than five entries in a trailing window. A call that is allowed prunes the stored
  window, and an entry it prunes is at least 10 seconds older than every later call.
\<close>

lemma admitted_bounded:
  "sorted (stored_window w c @ nows) \<Longrightarrow> window_bounded (stored_window w c)
   \<Longrightarrow> window_bounded (stored_window w c @ admitted c nows w)"
proof (induction nows arbitrary: w)
  case Nil
  then show ?case by simp
next
  case (Cons n ns)
  let ?st = "stored_window w c"
  let ?recent = "filter (\<lambda>t. n - t < RATE_LIMIT_WINDOW_MS) ?st"
  show ?case
  proof (cases "RATE_LIMIT_MAX_ACTIONS \<le> length ?recent")
    case True
    then have rej: "checkRateLimit c n w = (False, w)" by (rule checkRateLimit_reject)
    from Cons.prems(1) have "sorted (?st @ ns)"
      by (auto simp: sorted_append)
    with Cons.IH[of w] Cons.prems(2) rej show ?thesis by simp
  next
    case False
    let ?w' = "w\<lparr>kv_ratelimit := (kv_ratelimit w)(c \<mapsto> ?recent @ [n])\<rparr>"
    from False have adm: "checkRateLimit c n w = (True, ?w')"
      using checkRateLimit_admit[of n w c] by simp
    have st': "stored_window ?w' c = ?recent @ [n]" by (simp add: stored_window_def)
    from Cons.prems(1) have srt: "sorted (stored_window ?w' c @ ns)"
      unfolding st' by (auto simp: sorted_append intro: sorted_wrt_filter)
    from False have bnd: "window_bounded (stored_window ?w' c)"
      unfolding st' by (intro short_window_bounded) simp
    from Cons.IH[OF srt bnd] have IH: "window_bounded (?recent @ [n] @ admitted c ns ?w')"
      by (simp add: st')
    have later: "\<forall>t\<in>set (n # admitted c ns ?w'). n \<le> t"
      using Cons.prems(1) admitted_subset[of c ns ?w'] by (auto simp: sorted_append)
    have "length (in_trailing_window T (?st @ n # admitted c ns ?w')) \<le> RATE_LIMIT_MAX_ACTIONS"
      for T
    proof (cases "n \<le> T")
      case True
      have "in_trailing_window T (?st @ n # admitted c ns ?w')
            = in_trailing_window T (?recent @ [n] @ admitted c ns ?w')"
        by (simp add: in_trailing_window_append in_trailing_window_recent[OF True])
      with IH show ?thesis by (simp add: window_bounded_def)
    next
      case False
      with later have "\<forall>t\<in>set (n # admitted c ns ?w'). T < t" by auto
      then have "in_trailing_window T (n # admitted c ns ?w') = []"
        by (rule in_trailing_window_later)
      then have "in_trailing_window T (?st @ n # admitted c ns ?w') = in_trailing_window T ?st"
        by (simp add: in_trailing_window_append)
      with Cons.prems(2) show ?thesis by (simp add: window_bounded_def)
    qed
    with adm show ?thesis by (simp add: window_bounded_def)
  qed
qed

text \<open>
  Claim C2. For every chat and every stored window whose timestamps are not later than
  \<open>now\<close>: when at least 5 of them lie in the 10 seconds up to \<open>now\<close>, \<open>checkRateLimit\<close>
  answers "not allowed" and returns the world as it was; otherwise it answers "allowed"
  and stores those timestamps followed by \<open>now\<close>. Consequently, in a run of calls for one
  chat that starts with no stored window and whose clock does not go backwards, at most 5
  of the allowed calls fall in any trailing window of 10 seconds.
\<close>

theorem rate_limit_window:
  "((\<forall>t\<in>set (stored_window w c). t \<le> now) \<longrightarrow>
      (RATE_LIMIT_MAX_ACTIONS \<le> length (in_trailing_window now (stored_window w c)) \<longrightarrow>
         checkRateLimit c now w = (False, w)) \<and>
      (length (in_trailing_window now (stored_window w c)) < RATE_LIMIT_MAX_ACTIONS \<longrightarrow>
         checkRateLimit c now w =
           (True, w\<lparr>kv_ratelimit := (kv_ratelimit w)(c \<mapsto>
                      in_trailing_window now (stored_window w c) @ [now])\<rparr>))) \<and>
   (kv_ratelimit w c = None \<and> sorted nows \<longrightarrow>
      (\<forall>T. length (in_trailing_window T (admitted c nows w)) \<le> 5))"
proof (intro conjI impI)
  assume past: "\<forall>t\<in>set (stored_window w c). t \<le> now"
  assume "RATE_LIMIT_MAX_ACTIONS \<le> length (in_trailing_window now (stored_window w c))"
  then show "checkRateLimit c now w = (False, w)"
    using checkRateLimit_reject[of now w c] recent_is_trailing_window[OF past] by simp
next
  assume past: "\<forall>t\<in>set (stored_window w c). t \<le> now"
  assume "length (in_trailing_window now (stored_window w c)) < RATE_LIMIT_MAX_ACTIONS"
  then show "checkRateLimit c now w =
      (True, w\<lparr>kv_ratelimit := (kv_ratelimit w)(c \<mapsto>
                 in_trailing_window now (stored_window w c) @ [now])\<rparr>)"
    using checkRateLimit_admit[of now w c] recent_is_trailing_window[OF past] by simp
next
  assume "kv_ratelimit w c = None \<and> sorted nows"
  then have e: "stored_window w c = []" and s: "sorted nows"
    by (simp_all add: stored_window_def)
  from admitted_bounded[of w c nows] e s have "window_bounded (admitted c nows w)"
    by (simp add: window_bounded_def in_trailing_window_def)
  then show "\<forall>T. length (in_trailing_window T (admitted c nows w)) \<le> 5"
    by (simp add: window_bounded_def RATE_LIMIT_MAX_ACTIONS_def)
qed

theorem rate_limit_window_witness:
  "set (stored_window (ex_limited [0, 1, 2, 3, 4]) 7) = {0, 1, 2, 3, 4} \<and>
   RATE_LIMIT_MAX_ACTIONS \<le> length (in_trailing_window 5 (stored_window (ex_limited [0, 1, 2, 3, 4]) 7)) \<and>
   checkRateLimit 7 5 (ex_limited [0, 1, 2, 3, 4]) = (False, ex_limited [0, 1, 2, 3, 4]) \<and>
   length (in_trailing_window 10003 (stored_window (ex_limited [0, 1, 2, 3, 4]) 7))
     < RATE_LIMIT_MAX_ACTIONS \<and>
   checkRateLimit 7 10003 (ex_limited [0, 1, 2, 3, 4]) = (True, ex_limited [4, 10003]) \<and>
   kv_ratelimit (ex_world E_q1_team_role) 7 = None \<and>
   sorted [0, 1, 2, 3, 4, 5, 10000, 10001 :: int] \<and>
   admitted 7 [0, 1, 2, 3, 4, 5, 10000, 10001] (ex_world E_q1_team_role)
     = [0, 1, 2, 3, 4, 10000, 10001] \<and>
   length (in_trailing_window 10001
             (admitted 7 [0, 1, 2, 3, 4, 5, 10000, 10001] (ex_world E_q1_team_role))) \<le> 5"
proof -
  have past1: "\<forall>t\<in>set (stored_window (ex_limited [0, 1, 2, 3, 4]) 7). t \<le> 5"
    and past2: "\<forall>t\<in>set (stored_window (ex_limited [0, 1, 2, 3, 4]) 7). t \<le> 10003"
    by (simp_all add: stored_window_def ex_limited_def)
  have full: "RATE_LIMIT_MAX_ACTIONS
      \<le> length (in_trailing_window 5 (stored_window (ex_limited [0, 1, 2, 3, 4]) 7))"
    and room: "length (in_trailing_window 10003 (stored_window (ex_limited [0, 1, 2, 3, 4]) 7))
      < RATE_LIMIT_MAX_ACTIONS"
    and slid: "in_trailing_window 10003 (stored_window (ex_limited [0, 1, 2, 3, 4]) 7) = [4]"
    by (simp_all add: stored_window_def ex_limited_def in_trailing_window_def
          RATE_LIMIT_MAX_ACTIONS_def RATE_LIMIT_WINDOW_MS_def)
  have upd: "(ex_limited [0, 1, 2, 3, 4])\<lparr>kv_ratelimit :=
               (kv_ratelimit (ex_limited [0, 1, 2, 3, 4]))(7 \<mapsto> [4] @ [10003])\<rparr>
             = ex_limited [4, 10003]"
    by (simp add: ex_limited_def)
  have fresh: "kv_ratelimit (ex_world E_q1_team_role) 7 = None"
    by (simp add: ex_world_def)
  have srt: "sorted [0, 1, 2, 3, 4, 5, 10000, 10001 :: int]" by simp
  have run: "admitted 7 [0, 1, 2, 3, 4, 5, 10000, 10001] (ex_world E_q1_team_role)
     = [0, 1, 2, 3, 4, 10000, 10001]"
    by (simp add: checkRateLimit_def ex_world_def Let_def
          RATE_LIMIT_MAX_ACTIONS_def RATE_LIMIT_WINDOW_MS_def)
  have r1: "checkRateLimit 7 5 (ex_limited [0, 1, 2, 3, 4]) = (False, ex_limited [0, 1, 2, 3, 4])"
    using rate_limit_window[of "ex_limited [0, 1, 2, 3, 4]" 7 5 "[]"] past1 full by blast
  have "checkRateLimit 7 10003 (ex_limited [0, 1, 2, 3, 4]) =
      (True, (ex_limited [0, 1, 2, 3, 4])\<lparr>kv_ratelimit :=
         (kv_ratelimit (ex_limited [0, 1, 2, 3, 4]))(7 \<mapsto>
            in_trailing_window 10003 (stored_window (ex_limited [0, 1, 2, 3, 4]) 7) @ [10003])\<rparr>)"
    using rate_limit_window[of "ex_limited [0, 1, 2, 3, 4]" 7 10003 "[]"] past2 room by blast
  then have r2: "checkRateLimit 7 10003 (ex_limited [0, 1, 2, 3, 4]) = (True, ex_limited [4, 10003])"
    unfolding slid upd .
  have r3: "length (in_trailing_window 10001
             (admitted 7 [0, 1, 2, 3, 4, 5, 10000, 10001] (ex_world E_q1_team_role))) \<le> 5"
    using rate_limit_window[of "ex_world E_q1_team_role" 7 0 "[0, 1, 2, 3, 4, 5, 10000, 10001]"]
      fresh srt by blast
  have elems: "set (stored_window (ex_limited [0, 1, 2, 3, 4]) 7) = {0, 1, 2, 3, 4}"
    by (simp add: stored_window_def ex_limited_def)
  from elems full r1 room r2 fresh srt run r3 show ?thesis by blast
qed

subsection \<open>The result reporter\<close>

lemma reportResult_effect:
  "reportResult cmp result reason state chatId from env now w =
     deleteSession chatId (saveSession chatId (state\<lparr>step := cmp\<rparr>)
       (sendMessage chatId
          (if result = Pass then PassNotice (MARIA_LINK env) else FailNotice reason) None
          (postWebhook (MAKE_WEBHOOK_URL env)
             \<lparr>p_applicant_token = applicant_token state, p_telegram_chat_id = chatId,
              p_telegram_username = username from, p_result = result, p_reason = reason,
              p_answers = answers state, p_completed_at = now\<rparr> w)))"
  by (simp add: reportResult_def reportResult_ops_def run_ops_def)

lemma report_order:
  "reportResult_ops cmp result reason state chatId from env now ! 2
     = saveSession chatId (state\<lparr>step := cmp\<rparr>) \<and>
   reportResult_ops cmp result reason state chatId from env now ! 3 = deleteSession chatId \<and>
   length (reportResult_ops cmp result reason state chatId from env now) = 4 \<and>
   kv_sessions (run_ops (take 2 (reportResult_ops cmp result reason state chatId from env now)) w)
     = kv_sessions w \<and>
   map_option step
     (kv_sessions (run_ops (take 3 (reportResult_ops cmp result reason state chatId from env now)) w)
        chatId) = Some cmp \<and>
   reportResult cmp result reason state chatId from env now w
     = deleteSession chatId
         (run_ops (take 3 (reportResult_ops cmp result reason state chatId from env now)) w) \<and>
   kv_sessions (reportResult cmp result reason state chatId from env now w) chatId = None"
  by (simp add: reportResult_def reportResult_ops_def run_ops_def saveSession_def
        deleteSession_def sendMessage_def postWebhook_def)

text \<open>
  Claim C8. In both workers \<open>reportResult\<close> is four calls in this order: the POST, the
  message, the write of the session with the terminal step, the delete. The store is
  untouched before the write; in the world between the write and the delete (where a crash
  would leave it) the session stored for the chat has the terminal step; the whole call is
  the delete applied to that world and leaves no session for the chat.
\<close>

theorem completed_saved_before_delete:
  "(reportResult_ops B_completed result reason sb chatId from env now ! 2
      = saveSession chatId (sb\<lparr>step := B_completed\<rparr>) \<and>
    reportResult_ops B_completed result reason sb chatId from env now ! 3
      = deleteSession chatId \<and>
    length (reportResult_ops B_completed result reason sb chatId from env now) = 4 \<and>
    kv_sessions
      (run_ops (take 2 (reportResult_ops B_completed result reason sb chatId from env now)) wb)
      = kv_sessions wb \<and>
    map_option step
      (kv_sessions
         (run_ops (take 3 (reportResult_ops B_completed result reason sb chatId from env now)) wb)
         chatId) = Some B_completed \<and>
    reportResult B_completed result reason sb chatId from env now wb
      = deleteSession chatId
          (run_ops (take 3 (reportResult_ops B_completed result reason sb chatId from env now)) wb) \<and>
    kv_sessions (reportResult B_completed result reason sb chatId from env now wb) chatId = None) \<and>
   (reportResult_ops E_completed result reason se chatId from env now ! 2
      = saveSession chatId (se\<lparr>step := E_completed\<rparr>) \<and>
    reportResult_ops E_completed result reason se chatId from env now ! 3
      = deleteSession chatId \<and>
    length (reportResult_ops E_completed result reason se chatId from env now) = 4 \<and>
    kv_sessions
      (run_ops (take 2 (reportResult_ops E_completed result reason se chatId from env now)) we)
      = kv_sessions we \<and>
    map_option step
      (kv_sessions
         (run_ops (take 3 (reportResult_ops E_completed result reason se chatId from env now)) we)
         chatId) = Some E_completed \<and>
    reportResult E_completed result reason se chatId from env now we
      = deleteSession chatId
          (run_ops (take 3 (reportResult_ops E_completed result reason se chatId from env now)) we) \<and>
    kv_sessions (reportResult E_completed result reason se chatId from env now we) chatId = None)"
  using report_order[of B_completed result reason sb chatId "from" env now wb]
    report_order[of E_completed result reason se chatId "from" env now we]
  by blast

subsection \<open>Button presses\<close>

lemma checkRateLimit_frame:
  "checkRateLimit c now w = (b, w2) \<Longrightarrow>
   kv_sessions w2 = kv_sessions w \<and> sent w2 = sent w \<and> posts w2 = posts w \<and>
   acks w2 = acks w \<and> errlog w2 = errlog w"
  by (auto simp: checkRateLimit_def Let_def split: if_splits)

lemma checkRateLimit_ack:
  "fst (checkRateLimit c now (answerCallbackQuery i w)) = fst (checkRateLimit c now w)"
  by (simp add: checkRateLimit_def answerCallbackQuery_def Let_def)

text \<open>
  A press that the rate limiter allows, on a chat with a stored session: the world in which
  the handler goes on differs from the first one in the acknowledgement and the window only.
\<close>

lemma press_admitted:
  assumes "fst (checkRateLimit c now w)" and "loadSession c w = Some s"
  obtains w2 where "checkRateLimit c now (answerCallbackQuery i w) = (True, w2)"
    and "kv_sessions w2 = kv_sessions w" and "sent w2 = sent w" and "posts w2 = posts w"
    and "loadSession c w2 = Some s"
proof -
  obtain b w2 where c: "checkRateLimit c now (answerCallbackQuery i w) = (b, w2)"
    by (cases "checkRateLimit c now (answerCallbackQuery i w)")
  with assms(1) checkRateLimit_ack[of c now i w] have b: "b" by simp
  from checkRateLimit_frame[OF c]
  have fr: "kv_sessions w2 = kv_sessions w" "sent w2 = sent w" "posts w2 = posts w"
    by (simp_all add: answerCallbackQuery_def)
  with assms(2) have "loadSession c w2 = Some s" by (simp add: loadSession_def)
  with c b fr that show thesis by simp
qed

lemma prefix_cases:
  "callback_prefix sep data \<noteq> Some p \<Longrightarrow>
   indexOf data sep = None \<or> (\<exists>i. indexOf data sep = Some i \<and> take i data \<noteq> p)"
  by (cases "indexOf data sep") (auto simp: callback_prefix_def)

lemma hcq_base_completed:
  assumes adm: "fst (checkRateLimit (user_id (cq_from cq)) now w)"
    and ld: "loadSession (user_id (cq_from cq)) w = Some s"
    and st: "step s = B_completed"
  shows "kv_sessions (handleCallbackQuery_base cq env now w) = kv_sessions w \<and>
         posts (handleCallbackQuery_base cq env now w) = posts w \<and>
         sent (handleCallbackQuery_base cq env now w) = sent w"
proof -
  from press_admitted[OF adm ld, of "cq_id cq"] obtain w2 where
    c: "checkRateLimit (user_id (cq_from cq)) now (answerCallbackQuery (cq_id cq) w) = (True, w2)"
    and fr: "kv_sessions w2 = kv_sessions w" "sent w2 = sent w" "posts w2 = posts w"
    and ld2: "loadSession (user_id (cq_from cq)) w2 = Some s" by blast
  have "handleCallbackQuery_base cq env now w = w2"
    using c ld2 st by (simp add: handleCallbackQuery_base_def Let_def)
  with fr show ?thesis by simp
qed

lemma hcq_ext_completed:
  assumes adm: "fst (checkRateLimit (user_id (cq_from cq)) now w)"
    and ld: "loadSession (user_id (cq_from cq)) w = Some s"
    and st: "step s = E_completed"
  shows "kv_sessions (handleCallbackQuery_ext cq env now w) = kv_sessions w \<and>
         posts (handleCallbackQuery_ext cq env now w) = posts w \<and>
         sent (handleCallbackQuery_ext cq env now w) = sent w"
proof -
  from press_admitted[OF adm ld, of "cq_id cq"] obtain w2 where
    c: "checkRateLimit (user_id (cq_from cq)) now (answerCallbackQuery (cq_id cq) w) = (True, w2)"
    and fr: "kv_sessions w2 = kv_sessions w" "sent w2 = sent w" "posts w2 = posts w"
    and ld2: "loadSession (user_id (cq_from cq)) w2 = Some s" by blast
  have "handleCallbackQuery_ext cq env now w = w2"
    using c ld2 st by (simp add: handleCallbackQuery_ext_def Let_def)
  with fr show ?thesis by simp
qed

lemma hcq_base_stale:
  assumes adm: "fst (checkRateLimit (user_id (cq_from cq)) now w)"
    and ld: "loadSession (user_id (cq_from cq)) w = Some s"
    and st: "callback_prefix (CHR '':'') (press_data cq) \<noteq> Some (STEP_PREFIX_base (step s))"
  shows "kv_sessions (handleCallbackQuery_base cq env now w) = kv_sessions w \<and>
         posts (handleCallbackQuery_base cq env now w) = posts w \<and>
         sent (handleCallbackQuery_base cq env now w) = sent w"
proof -
  from press_admitted[OF adm ld, of "cq_id cq"] obtain w2 where
    c: "checkRateLimit (user_id (cq_from cq)) now (answerCallbackQuery (cq_id cq) w) = (True, w2)"
    and fr: "kv_sessions w2 = kv_sessions w" "sent w2 = sent w" "posts w2 = posts w"
    and ld2: "loadSession (user_id (cq_from cq)) w2 = Some s" by blast
  from prefix_cases[OF st] have
    "handleCallbackQuery_base cq env now w = w2 \<or>
     handleCallbackQuery_base cq env now w = logError (LogNoSeparator (press_data cq)) w2"
  proof
    assume "indexOf (press_data cq) (CHR '':'') = None"
    then show ?thesis using c ld2
      by (simp add: handleCallbackQuery_base_def Let_def press_data_def)
  next
    assume "\<exists>i. indexOf (press_data cq) (CHR '':'') = Some i \<and>
                take i (press_data cq) \<noteq> STEP_PREFIX_base (step s)"
    then show ?thesis using c ld2
      by (auto simp add: handleCallbackQuery_base_def Let_def press_data_def)
  qed
  with fr show ?thesis by (auto simp: logError_def)
qed

lemma hcq_ext_stale:
  assumes adm: "fst (checkRateLimit (user_id (cq_from cq)) now w)"
    and ld: "loadSession (user_id (cq_from cq)) w = Some s"
    and st: "callback_prefix (CHR ''_'') (press_data cq) \<noteq> Some (STEP_PREFIX_ext (step s))"
  shows "kv_sessions (handleCallbackQuery_ext cq env now w) = kv_sessions w \<and>
         posts (handleCallbackQuery_ext cq env now w) = posts w \<and>
         sent (handleCallbackQuery_ext cq env now w) = sent w"
proof -
  from press_admitted[OF adm ld, of "cq_id cq"] obtain w2 where
    c: "checkRateLimit (user_id (cq_from cq)) now (answerCallbackQuery (cq_id cq) w) = (True, w2)"
    and fr: "kv_sessions w2 = kv_sessions w" "sent w2 = sent w" "posts w2 = posts w"
    and ld2: "loadSession (user_id (cq_from cq)) w2 = Some s" by blast
  from prefix_cases[OF st] have
    "handleCallbackQuery_ext cq env now w = w2 \<or>
     handleCallbackQuery_ext cq env now w = logError (LogNoSeparator (press_data cq)) w2"
  proof
    assume "indexOf (press_data cq) (CHR ''_'') = None"
    then show ?thesis using c ld2
      by (simp add: handleCallbackQuery_ext_def Let_def press_data_def)
  next
    assume "\<exists>i. indexOf (press_data cq) (CHR ''_'') = Some i \<and>
                take i (press_data cq) \<noteq> STEP_PREFIX_ext (step s)"
    then show ?thesis using c ld2
      by (auto simp add: handleCallbackQuery_ext_def Let_def press_data_def)
  qed
  with fr show ?thesis by (auto simp: logError_def)
qed

lemma hcq_ext_unknown:
  assumes adm: "fst (checkRateLimit (user_id (cq_from cq)) now w)"
    and ld: "loadSession (user_id (cq_from cq)) w = Some s"
    and pre: "callback_prefix (CHR ''_'') (press_data cq) = Some (STEP_PREFIX_ext (step s))"
    and suf: "callback_suffix (CHR ''_'') (press_data cq) = Some suffix"
    and unk: "catalog_value (STEP_PREFIX_ext (step s)) suffix = None"
    and own: "\<not> inherited_key suffix"
  shows "kv_sessions (handleCallbackQuery_ext cq env now w) = kv_sessions w \<and>
         posts (handleCallbackQuery_ext cq env now w) = posts w \<and>
         sent (handleCallbackQuery_ext cq env now w) = sent w"
proof -
  from press_admitted[OF adm ld, of "cq_id cq"] obtain w2 where
    c: "checkRateLimit (user_id (cq_from cq)) now (answerCallbackQuery (cq_id cq) w) = (True, w2)"
    and fr: "kv_sessions w2 = kv_sessions w" "sent w2 = sent w" "posts w2 = posts w"
    and ld2: "loadSession (user_id (cq_from cq)) w2 = Some s" by blast
  from pre obtain i where i: "indexOf (press_data cq) (CHR ''_'') = Some i"
    and p: "take i (press_data cq) = STEP_PREFIX_ext (step s)"
    by (cases "indexOf (press_data cq) (CHR ''_'')") (auto simp: callback_prefix_def)
  from suf i have d: "drop (Suc i) (press_data cq) = suffix"
    by (simp add: callback_suffix_def)
  have "\<exists>e. handleCallbackQuery_ext cq env now w = w2 \<or>
        handleCallbackQuery_ext cq env now w = logError e w2"
  proof (cases "map_of CALLBACK_VALUE_MAP (STEP_PREFIX_ext (step s))")
    case None
    then show ?thesis using c ld2 i p
      by (auto simp add: handleCallbackQuery_ext_def Let_def press_data_def)
  next
    case (Some m)
    with unk have "map_of m suffix = None" by (simp add: catalog_value_def)
    with own have "js_get m suffix = JUndefined"
      by (simp add: js_get_def inherited_key_def)
    then show ?thesis using c ld2 i p d Some
      by (auto simp add: handleCallbackQuery_ext_def Let_def press_data_def)
  qed
  with fr show ?thesis by (auto simp: logError_def)
qed

text \<open>
  Claim C3. A button press that the rate limiter allows and that finds the chat's stored
  session at the terminal step changes nothing the user or the result webhook can see, in
  either worker: the session store, the list of result POSTs and the list of messages are
  as before. Delivering the press a second time (allowed again) leaves them as before too:
  no second POST, no second message.
\<close>

theorem completed_press_noop:
  "(fst (checkRateLimit (user_id (cq_from cq)) now wb) \<and>
    loadSession (user_id (cq_from cq)) wb = Some sb \<and> step sb = B_completed \<longrightarrow>
      kv_sessions (handleCallbackQuery_base cq env now wb) = kv_sessions wb \<and>
      posts (handleCallbackQuery_base cq env now wb) = posts wb \<and>
      sent (handleCallbackQuery_base cq env now wb) = sent wb \<and>
      (fst (checkRateLimit (user_id (cq_from cq)) now' (handleCallbackQuery_base cq env now wb)) \<longrightarrow>
         kv_sessions (handleCallbackQuery_base cq env now' (handleCallbackQuery_base cq env now wb))
           = kv_sessions wb \<and>
         posts (handleCallbackQuery_base cq env now' (handleCallbackQuery_base cq env now wb))
           = posts wb \<and>
         sent (handleCallbackQuery_base cq env now' (handleCallbackQuery_base cq env now wb))
           = sent wb)) \<and>
   (fst (checkRateLimit (user_id (cq_from cq)) now we) \<and>
    loadSession (user_id (cq_from cq)) we = Some se \<and> step se = E_completed \<longrightarrow>
      kv_sessions (handleCallbackQuery_ext cq env now we) = kv_sessions we \<and>
      posts (handleCallbackQuery_ext cq env now we) = posts we \<and>
      sent (handleCallbackQuery_ext cq env now we) = sent we \<and>
      (fst (checkRateLimit (user_id (cq_from cq)) now' (handleCallbackQuery_ext cq env now we)) \<longrightarrow>
         kv_sessions (handleCallbackQuery_ext cq env now' (handleCallbackQuery_ext cq env now we))
           = kv_sessions we \<and>
         posts (handleCallbackQuery_ext cq env now' (handleCallbackQuery_ext cq env now we))
           = posts we \<and>
         sent (handleCallbackQuery_ext cq env now' (handleCallbackQuery_ext cq env now we))
           = sent we))"
proof (intro conjI impI)
  assume h: "fst (checkRateLimit (user_id (cq_from cq)) now wb) \<and>
    loadSession (user_id (cq_from cq)) wb = Some sb \<and> step sb = B_completed"
  then have one: "kv_sessions (handleCallbackQuery_base cq env now wb) = kv_sessions wb \<and>
      posts (handleCallbackQuery_base cq env now wb) = posts wb \<and>
      sent (handleCallbackQuery_base cq env now wb) = sent wb"
    using hcq_base_completed[of cq now wb sb env] by blast
  then show "kv_sessions (handleCallbackQuery_base cq env now wb) = kv_sessions wb"
    and "posts (handleCallbackQuery_base cq env now wb) = posts wb"
    and "sent (handleCallbackQuery_base cq env now wb) = sent wb" by simp_all
  assume again: "fst (checkRateLimit (user_id (cq_from cq)) now' (handleCallbackQuery_base cq env now wb))"
  from h one have "loadSession (user_id (cq_from cq)) (handleCallbackQuery_base cq env now wb) = Some sb"
    by (simp add: loadSession_def)
  with again h
  have "kv_sessions (handleCallbackQuery_base cq env now' (handleCallbackQuery_base cq env now wb))
          = kv_sessions (handleCallbackQuery_base cq env now wb) \<and>
        posts (handleCallbackQuery_base cq env now' (handleCallbackQuery_base cq env now wb))
          = posts (handleCallbackQuery_base cq env now wb) \<and>
        sent (handleCallbackQuery_base cq env now' (handleCallbackQuery_base cq env now wb))
          = sent (handleCallbackQuery_base cq env now wb)"
    using hcq_base_completed[of cq now' "handleCallbackQuery_base cq env now wb" sb env] by blast
  with one
  show "kv_sessions (handleCallbackQuery_base cq env now' (handleCallbackQuery_base cq env now wb))
          = kv_sessions wb"
    and "posts (handleCallbackQuery_base cq env now' (handleCallbackQuery_base cq env now wb))
          = posts wb"
    and "sent (handleCallbackQuery_base cq env now' (handleCallbackQuery_base cq env now wb))
          = sent wb" by simp_all
next
  assume h: "fst (checkRateLimit (user_id (cq_from cq)) now we) \<and>
    loadSession (user_id (cq_from cq)) we = Some se \<and> step se = E_completed"
  then have one: "kv_sessions (handleCallbackQuery_ext cq env now we) = kv_sessions we \<and>
      posts (handleCallbackQuery_ext cq env now we) = posts we \<and>
      sent (handleCallbackQuery_ext cq env now we) = sent we"
    using hcq_ext_completed[of cq now we se env] by blast
  then show "kv_sessions (handleCallbackQuery_ext cq env now we) = kv_sessions we"
    and "posts (handleCallbackQuery_ext cq env now we) = posts we"
    and "sent (handleCallbackQuery_ext cq env now we) = sent we" by simp_all
  assume again: "fst (checkRateLimit (user_id (cq_from cq)) now' (handleCallbackQuery_ext cq env now we))"
  from h one have "loadSession (user_id (cq_from cq)) (handleCallbackQuery_ext cq env now we) = Some se"
    by (simp add: loadSession_def)
  with again h
  have "kv_sessions (handleCallbackQuery_ext cq env now' (handleCallbackQuery_ext cq env now we))
          = kv_sessions (handleCallbackQuery_ext cq env now we) \<and>
        posts (handleCallbackQuery_ext cq env now' (handleCallbackQuery_ext cq env now we))
          = posts (handleCallbackQuery_ext cq env now we) \<and>
        sent (handleCallbackQuery_ext cq env now' (handleCallbackQuery_ext cq env now we))
          = sent (handleCallbackQuery_ext cq env now we)"
    using hcq_ext_completed[of cq now' "handleCallbackQuery_ext cq env now we" se env] by blast
  with one
  show "kv_sessions (handleCallbackQuery_ext cq env now' (handleCallbackQuery_ext cq env now we))
          = kv_sessions we"
    and "posts (handleCallbackQuery_ext cq env now' (handleCallbackQuery_ext cq env now we))
          = posts we"
    and "sent (handleCallbackQuery_ext cq env now' (handleCallbackQuery_ext cq env now we))
          = sent we" by simp_all
qed

theorem completed_press_noop_witness:
  "fst (checkRateLimit (user_id (cq_from (ex_press ''q5:yes''))) 0 (ex_world B_completed)) \<and>
   loadSession (user_id (cq_from (ex_press ''q5:yes''))) (ex_world B_completed)
     = Some (ex_session B_completed) \<and>
   step (ex_session B_completed) = B_completed \<and>
   fst (checkRateLimit (user_id (cq_from (ex_press ''q5:yes''))) 1
          (handleCallbackQuery_base (ex_press ''q5:yes'') ex_env 0 (ex_world B_completed))) \<and>
   posts (handleCallbackQuery_base (ex_press ''q5:yes'') ex_env 1
            (handleCallbackQuery_base (ex_press ''q5:yes'') ex_env 0 (ex_world B_completed))) = [] \<and>
   sent (handleCallbackQuery_base (ex_press ''q5:yes'') ex_env 1
           (handleCallbackQuery_base (ex_press ''q5:yes'') ex_env 0 (ex_world B_completed))) = [] \<and>
   fst (checkRateLimit (user_id (cq_from (ex_press ''q5:yes''))) 0 (ex_world E_completed)) \<and>
   loadSession (user_id (cq_from (ex_press ''q5:yes''))) (ex_world E_completed)
     = Some (ex_session E_completed) \<and>
   step (ex_session E_completed) = E_completed \<and>
   fst (checkRateLimit (user_id (cq_from (ex_press ''q5:yes''))) 1
          (handleCallbackQuery_ext (ex_press ''q5:yes'') ex_env 0 (ex_world E_completed))) \<and>
   posts (handleCallbackQuery_ext (ex_press ''q5:yes'') ex_env 1
            (handleCallbackQuery_ext (ex_press ''q5:yes'') ex_env 0 (ex_world E_completed))) = [] \<and>
   sent (handleCallbackQuery_ext (ex_press ''q5:yes'') ex_env 1
           (handleCallbackQuery_ext (ex_press ''q5:yes'') ex_env 0 (ex_world E_completed))) = []"
proof -
  have b1: "fst (checkRateLimit (user_id (cq_from (ex_press ''q5:yes''))) 0 (ex_world B_completed))"
    and b2: "loadSession (user_id (cq_from (ex_press ''q5:yes''))) (ex_world B_completed)
               = Some (ex_session B_completed)"
    and b3: "step (ex_session B_completed) = B_completed"
    and b4: "fst (checkRateLimit (user_id (cq_from (ex_press ''q5:yes''))) 1
               (handleCallbackQuery_base (ex_press ''q5:yes'') ex_env 0 (ex_world B_completed)))"
    by (simp_all add: handleCallbackQuery_base_def ex_defs io_defs Let_def)
  have e1: "fst (checkRateLimit (user_id (cq_from (ex_press ''q5:yes''))) 0 (ex_world E_completed))"
    and e2: "loadSession (user_id (cq_from (ex_press ''q5:yes''))) (ex_world E_completed)
               = Some (ex_session E_completed)"
    and e3: "step (ex_session E_completed) = E_completed"
    and e4: "fst (checkRateLimit (user_id (cq_from (ex_press ''q5:yes''))) 1
               (handleCallbackQuery_ext (ex_press ''q5:yes'') ex_env 0 (ex_world E_completed)))"
    by (simp_all add: handleCallbackQuery_ext_def ex_defs io_defs Let_def)
  have p0: "posts (ex_world B_completed) = []" "sent (ex_world B_completed) = []"
    "posts (ex_world E_completed) = []" "sent (ex_world E_completed) = []"
    by (simp_all add: ex_world_def)
  from b1 b2 b3 b4
    completed_press_noop[where cq = "ex_press ''q5:yes''" and now = 0 and now' = 1
      and env = ex_env and wb = "ex_world B_completed" and sb = "ex_session B_completed"]
  have rb: "posts (handleCallbackQuery_base (ex_press ''q5:yes'') ex_env 1
              (handleCallbackQuery_base (ex_press ''q5:yes'') ex_env 0 (ex_world B_completed)))
            = posts (ex_world B_completed)"
    "sent (handleCallbackQuery_base (ex_press ''q5:yes'') ex_env 1
            (handleCallbackQuery_base (ex_press ''q5:yes'') ex_env 0 (ex_world B_completed)))
            = sent (ex_world B_completed)"
    by blast+
  from e1 e2 e3 e4
    completed_press_noop[where cq = "ex_press ''q5:yes''" and now = 0 and now' = 1
      and env = ex_env and we = "ex_world E_completed" and se = "ex_session E_completed"]
  have re: "posts (handleCallbackQuery_ext (ex_press ''q5:yes'') ex_env 1
              (handleCallbackQuery_ext (ex_press ''q5:yes'') ex_env 0 (ex_world E_completed)))
            = posts (ex_world E_completed)"
    "sent (handleCallbackQuery_ext (ex_press ''q5:yes'') ex_env 1
            (handleCallbackQuery_ext (ex_press ''q5:yes'') ex_env 0 (ex_world E_completed)))
            = sent (ex_world E_completed)"
    by blast+
  from b1 b2 b3 b4 e1 e2 e3 e4 rb re show ?thesis by (simp add: p0)
qed

text \<open>
  Claim C5. A button press that the rate limiter allows, on a chat with a stored session,
  whose code has no separator or whose part before the first separator is not the prefix
  of the session's step, is discarded in either worker: the session store is unchanged, no
  message is sent and no result is posted.
\<close>

theorem stale_press_discarded:
  "(fst (checkRateLimit (user_id (cq_from cq)) now wb) \<and>
    loadSession (user_id (cq_from cq)) wb = Some sb \<and>
    callback_prefix (CHR '':'') (press_data cq) \<noteq> Some (STEP_PREFIX_base (step sb)) \<longrightarrow>
      kv_sessions (handleCallbackQuery_base cq env now wb) = kv_sessions wb \<and>
      posts (handleCallbackQuery_base cq env now wb) = posts wb \<and>
      sent (handleCallbackQuery_base cq env now wb) = sent wb) \<and>
   (fst (checkRateLimit (user_id (cq_from cq)) now we) \<and>
    loadSession (user_id (cq_from cq)) we = Some se \<and>
    callback_prefix (CHR ''_'') (press_data cq) \<noteq> Some (STEP_PREFIX_ext (step se)) \<longrightarrow>
      kv_sessions (handleCallbackQuery_ext cq env now we) = kv_sessions we \<and>
      posts (handleCallbackQuery_ext cq env now we) = posts we \<and>
      sent (handleCallbackQuery_ext cq env now we) = sent we)"
  using hcq_base_stale[of cq now wb sb env] hcq_ext_stale[of cq now we se env]
  by blast

theorem stale_press_discarded_witness:
  "fst (checkRateLimit (user_id (cq_from (ex_press ''q1:yes''))) 0 (ex_world B_q3_start_date)) \<and>
   loadSession (user_id (cq_from (ex_press ''q1:yes''))) (ex_world B_q3_start_date)
     = Some (ex_session B_q3_start_date) \<and>
   callback_prefix (CHR '':'') (press_data (ex_press ''q1:yes''))
     \<noteq> Some (STEP_PREFIX_base (step (ex_session B_q3_start_date))) \<and>
   kv_sessions (handleCallbackQuery_base (ex_press ''q1:yes'') ex_env 0 (ex_world B_q3_start_date))
     = kv_sessions (ex_world B_q3_start_date) \<and>
   sent (handleCallbackQuery_base (ex_press ''q1:yes'') ex_env 0 (ex_world B_q3_start_date)) = [] \<and>
   fst (checkRateLimit (user_id (cq_from (ex_press ''Q1_YES''))) 0 (ex_world E_q3_start_date)) \<and>
   loadSession (user_id (cq_from (ex_press ''Q1_YES''))) (ex_world E_q3_start_date)
     = Some (ex_session E_q3_start_date) \<and>
   callback_prefix (CHR ''_'') (press_data (ex_press ''Q1_YES''))
     \<noteq> Some (STEP_PREFIX_ext (step (ex_session E_q3_start_date))) \<and>
   kv_sessions (handleCallbackQuery_ext (ex_press ''Q1_YES'') ex_env 0 (ex_world E_q3_start_date))
     = kv_sessions (ex_world E_q3_start_date) \<and>
   sent (handleCallbackQuery_ext (ex_press ''Q1_YES'') ex_env 0 (ex_world E_q3_start_date)) = []"
proof -
  have b: "fst (checkRateLimit (user_id (cq_from (ex_press ''q1:yes''))) 0 (ex_world B_q3_start_date))"
    "loadSession (user_id (cq_from (ex_press ''q1:yes''))) (ex_world B_q3_start_date)
       = Some (ex_session B_q3_start_date)"
    "callback_prefix (CHR '':'') (press_data (ex_press ''q1:yes''))
       \<noteq> Some (STEP_PREFIX_base (step (ex_session B_q3_start_date)))"
    by (simp_all add: ex_defs io_defs stmt_defs indexOf_def Let_def)
  have e: "fst (checkRateLimit (user_id (cq_from (ex_press ''Q1_YES''))) 0 (ex_world E_q3_start_date))"
    "loadSession (user_id (cq_from (ex_press ''Q1_YES''))) (ex_world E_q3_start_date)
       = Some (ex_session E_q3_start_date)"
    "callback_prefix (CHR ''_'') (press_data (ex_press ''Q1_YES''))
       \<noteq> Some (STEP_PREFIX_ext (step (ex_session E_q3_start_date)))"
    by (simp_all add: ex_defs io_defs stmt_defs indexOf_def Let_def)
  have p0: "sent (ex_world B_q3_start_date) = []" "sent (ex_world E_q3_start_date) = []"
    by (simp_all add: ex_world_def)
  from b
    stale_press_discarded[where cq = "ex_press ''q1:yes''" and now = 0 and env = ex_env
      and wb = "ex_world B_q3_start_date" and sb = "ex_session B_q3_start_date"]
  have rb: "kv_sessions (handleCallbackQuery_base (ex_press ''q1:yes'') ex_env 0 (ex_world B_q3_start_date))
       = kv_sessions (ex_world B_q3_start_date)"
    "sent (handleCallbackQuery_base (ex_press ''q1:yes'') ex_env 0 (ex_world B_q3_start_date))
       = sent (ex_world B_q3_start_date)"
    by blast+
  from e
    stale_press_discarded[where cq = "ex_press ''Q1_YES''" and now = 0 and env = ex_env
      and we = "ex_world E_q3_start_date" and se = "ex_session E_q3_start_date"]
  have re: "kv_sessions (handleCallbackQuery_ext (ex_press ''Q1_YES'') ex_env 0 (ex_world E_q3_start_date))
       = kv_sessions (ex_world E_q3_start_date)"
    "sent (handleCallbackQuery_ext (ex_press ''Q1_YES'') ex_env 0 (ex_world E_q3_start_date))
       = sent (ex_world E_q3_start_date)"
    by blast+
  from b e rb re show ?thesis by (simp add: p0)
qed

text \<open>
  Claim C1, as stated, fails on the first worker, which has no table of codes: it takes
  whatever follows the colon as the answer. The code \<open>q1:maybe\<close> is not a button of
  question 1, its prefix is the prefix of the session's step, and the press is accepted:
  the answer \<open>maybe\<close> is stored, the session moves to the second question and that
  question is sent.
\<close>

theorem base_accepts_unlisted_code:
  "fst (checkRateLimit (user_id (cq_from (ex_press ''q1:maybe''))) 0 (ex_world B_q1_team_role)) \<and>
   loadSession (user_id (cq_from (ex_press ''q1:maybe''))) (ex_world B_q1_team_role)
     = Some (ex_session B_q1_team_role) \<and>
   callback_prefix (CHR '':'') (press_data (ex_press ''q1:maybe''))
     = Some (STEP_PREFIX_base (step (ex_session B_q1_team_role))) \<and>
   ''q1:maybe'' \<notin> set (concat (buttons (QUESTIONS_base ! 0))) \<and>
   sent (ex_world B_q1_team_role) = [] \<and>
   sent (handleCallbackQuery_base (ex_press ''q1:maybe'') ex_env 0 (ex_world B_q1_team_role))
     = [(7, QuestionText 1, Some [[''q2:full_time''], [''q2:part_time''], [''q2:less_than_15'']])] \<and>
   map_option step
     (kv_sessions (handleCallbackQuery_base (ex_press ''q1:maybe'') ex_env 0
                     (ex_world B_q1_team_role)) 7) = Some B_q2_weekly_hours \<and>
   answers
     (the (kv_sessions (handleCallbackQuery_base (ex_press ''q1:maybe'') ex_env 0
                          (ex_world B_q1_team_role)) 7)) ''team_role'' = Some (JStr ''maybe'')"
  by (simp add: base_defs ex_defs js_defs str_defs io_defs stmt_defs Let_def)

text \<open>
  Claim C1, amended. In the second worker, a button press that the rate limiter allows, on
  a chat with a stored session, whose code has the separator, whose prefix is the prefix of
  the session's step, and whose suffix is neither listed in \<open>CALLBACK_VALUE_MAP\<close> for that
  prefix nor the name of an inherited property, is dropped: the session store is unchanged,
  no result is posted and no message is sent.
\<close>

theorem ext_drops_unknown_code:
  assumes "fst (checkRateLimit (user_id (cq_from cq)) now w)"
    and "loadSession (user_id (cq_from cq)) w = Some s"
    and "callback_prefix (CHR ''_'') (press_data cq) = Some (STEP_PREFIX_ext (step s))"
    and "callback_suffix (CHR ''_'') (press_data cq) = Some suffix"
    and "catalog_value (STEP_PREFIX_ext (step s)) suffix = None"
    and "\<not> inherited_key suffix"
  shows "kv_sessions (handleCallbackQuery_ext cq env now w) = kv_sessions w \<and>
         posts (handleCallbackQuery_ext cq env now w) = posts w \<and>
         sent (handleCallbackQuery_ext cq env now w) = sent w"
  using assms by (rule hcq_ext_unknown)

theorem ext_drops_unknown_code_witness:
  "fst (checkRateLimit (user_id (cq_from (ex_press ''Q1_MAYBE''))) 0 (ex_world E_q1_team_role)) \<and>
   loadSession (user_id (cq_from (ex_press ''Q1_MAYBE''))) (ex_world E_q1_team_role)
     = Some (ex_session E_q1_team_role) \<and>
   callback_prefix (CHR ''_'') (press_data (ex_press ''Q1_MAYBE''))
     = Some (STEP_PREFIX_ext (step (ex_session E_q1_team_role))) \<and>
   callback_suffix (CHR ''_'') (press_data (ex_press ''Q1_MAYBE'')) = Some ''MAYBE'' \<and>
   catalog_value (STEP_PREFIX_ext (step (ex_session E_q1_team_role))) ''MAYBE'' = None \<and>
   \<not> inherited_key ''MAYBE'' \<and>
   kv_sessions (handleCallbackQuery_ext (ex_press ''Q1_MAYBE'') ex_env 0 (ex_world E_q1_team_role))
     = kv_sessions (ex_world E_q1_team_role) \<and>
   posts (handleCallbackQuery_ext (ex_press ''Q1_MAYBE'') ex_env 0 (ex_world E_q1_team_role)) = [] \<and>
   sent (handleCallbackQuery_ext (ex_press ''Q1_MAYBE'') ex_env 0 (ex_world E_q1_team_role)) = []"
proof -
  have h: "fst (checkRateLimit (user_id (cq_from (ex_press ''Q1_MAYBE''))) 0 (ex_world E_q1_team_role))"
    "loadSession (user_id (cq_from (ex_press ''Q1_MAYBE''))) (ex_world E_q1_team_role)
       = Some (ex_session E_q1_team_role)"
    "callback_prefix (CHR ''_'') (press_data (ex_press ''Q1_MAYBE''))
       = Some (STEP_PREFIX_ext (step (ex_session E_q1_team_role)))"
    "callback_suffix (CHR ''_'') (press_data (ex_press ''Q1_MAYBE'')) = Some ''MAYBE''"
    "catalog_value (STEP_PREFIX_ext (step (ex_session E_q1_team_role))) ''MAYBE'' = None"
    "\<not> inherited_key ''MAYBE''"
    by (simp_all add: ex_defs io_defs stmt_defs indexOf_def Let_def CALLBACK_VALUE_MAP_def
          object_prototype_keys_def)
  have p0: "posts (ex_world E_q1_team_role) = []" "sent (ex_world E_q1_team_role) = []"
    by (simp_all add: ex_world_def)
  from ext_drops_unknown_code[OF h, of ex_env] h show ?thesis by (simp add: p0)
qed

text \<open>
  The last hypothesis is needed: \<open>constructor\<close> is not listed for \<open>Q1\<close>, yet the read
  \<open>prefixMap["constructor"]\<close> gives the inherited function, which is truthy, and the press
  is accepted.
\<close>

lemma ext_inherited_suffix_accepted:
  "catalog_value ''Q1'' ''constructor'' = None \<and>
   sent (handleCallbackQuery_ext (ex_press ''Q1_constructor'') ex_env 0 (ex_world E_q1_team_role))
     = [(7, QuestionText 1, Some [[''Q2_FT''], [''Q2_PT''], [''Q2_LOW'']])] \<and>
   map_option step
     (kv_sessions (handleCallbackQuery_ext (ex_press ''Q1_constructor'') ex_env 0
                     (ex_world E_q1_team_role)) 7) = Some E_q2_weekly_hours"
  by (simp add: ext_defs ex_defs js_defs str_defs io_defs stmt_defs Let_def)

text \<open>
  The first worker, in general: a press that the rate limiter allows, on a live session,
  with the separator and the prefix of the session's step, has whatever follows the colon
  recorded as the answer to the step's question, either in the result that is posted or in
  the session that is stored for the next step.
\<close>

lemma base_records_any_suffix:
  assumes adm: "fst (checkRateLimit (user_id (cq_from cq)) now w)"
    and ld: "loadSession (user_id (cq_from cq)) w = Some s"
    and live: "step s \<noteq> B_completed"
    and pre: "callback_prefix (CHR '':'') (press_data cq) = Some (STEP_PREFIX_base (step s))"
    and suf: "callback_suffix (CHR '':'') (press_data cq) = Some a"
    and idx: "indexOf STEP_ORDER_base (step s) = Some i"
  shows "(\<exists>r. posts (handleCallbackQuery_base cq env now w) = posts w @ [r] \<and>
              p_answers (snd r) (key (QUESTIONS_base ! i)) = Some (JStr a)) \<or>
         (\<exists>s'. kv_sessions (handleCallbackQuery_base cq env now w) (user_id (cq_from cq)) = Some s' \<and>
               answers s' (key (QUESTIONS_base ! i)) = Some (JStr a) \<and>
               step s' = STEP_ORDER_base ! Suc i)"
proof -
  from press_admitted[OF adm ld, of "cq_id cq"] obtain w2 where
    c: "checkRateLimit (user_id (cq_from cq)) now (answerCallbackQuery (cq_id cq) w) = (True, w2)"
    and fr: "kv_sessions w2 = kv_sessions w" "sent w2 = sent w" "posts w2 = posts w"
    and ld2: "loadSession (user_id (cq_from cq)) w2 = Some s" by blast
  from pre obtain j where j: "indexOf (press_data cq) (CHR '':'') = Some j"
    and p: "take j (press_data cq) = STEP_PREFIX_base (step s)"
    by (cases "indexOf (press_data cq) (CHR '':'')") (auto simp: callback_prefix_def)
  from suf j have d: "drop (Suc j) (press_data cq) = a"
    by (simp add: callback_suffix_def)
  let ?s1 = "s\<lparr>answers := (answers s)(key (QUESTIONS_base ! i) \<mapsto> JStr a)\<rparr>"
  have run: "handleCallbackQuery_base cq env now w =
      (case checkFailCondition_base (step s) (JStr a) (minWeeklyHours env) of
         Some failReason \<Rightarrow>
           reportResult B_completed Fail (Some failReason) ?s1
             (user_id (cq_from cq)) (cq_from cq) env now w2
       | None \<Rightarrow>
           if length STEP_ORDER_base \<le> Suc i
           then reportResult B_completed Pass None ?s1
                  (user_id (cq_from cq)) (cq_from cq) env now w2
           else sendQuestion_base (user_id (cq_from cq)) (Suc i)
                  (saveSession (user_id (cq_from cq))
                     (?s1\<lparr>step := STEP_ORDER_base ! Suc i\<rparr>) w2))"
    unfolding handleCallbackQuery_base_def press_data_def[symmetric] Let_def
    using c ld2 live j p d idx by (simp cong: option.case_cong)
  show ?thesis
    unfolding run using fr
    by (simp add: reportResult_effect deleteSession_def saveSession_def sendMessage_def
          postWebhook_def sendQuestion_base_def json_answers_def Let_def
          split: option.splits)
qed

subsection \<open>The threshold in the transition\<close>

lemma hours_key_nonempty:
  "map_of HOURS_MAP_ext a = Some v \<Longrightarrow> a \<noteq> []"
  by (auto simp: HOURS_MAP_ext_def split: if_splits)

lemma hours_fail_base:
  "map_of HOURS_MAP_base a = Some (JNum h) \<Longrightarrow>
   checkFailCondition_base B_q2_weekly_hours (JStr a) m
     = (if h < m then Some (BelowMinimumHours m) else None)"
  by (simp add: js_index_def js_get_def js_nullish_or_def)

lemma hours_fail_ext:
  "map_of HOURS_MAP_ext a = Some (JNum h) \<Longrightarrow>
   checkFailCondition_ext E_q2_weekly_hours (JStr a) m
     = (if h < m then Some (BelowMinimumHours m) else None)"
  by (simp add: js_index_def js_get_def js_nullish_or_def)

lemma hcq_base_hours:
  assumes adm: "fst (checkRateLimit (user_id (cq_from cq)) now w)"
    and ld: "loadSession (user_id (cq_from cq)) w = Some s"
    and st: "step s = B_q2_weekly_hours"
    and pre: "callback_prefix (CHR '':'') (press_data cq) = Some ''q2''"
    and suf: "callback_suffix (CHR '':'') (press_data cq) = Some a"
    and hrs: "map_of HOURS_MAP_base a = Some (JNum h)"
  shows "(h < minWeeklyHours env \<longrightarrow>
            posts (handleCallbackQuery_base cq env now w)
              = posts w @ [(MAKE_WEBHOOK_URL env,
                  \<lparr>p_applicant_token = applicant_token s,
                   p_telegram_chat_id = user_id (cq_from cq),
                   p_telegram_username = username (cq_from cq), p_result = Fail,
                   p_reason = Some (BelowMinimumHours (minWeeklyHours env)),
                   p_answers = json_answers ((answers s)(''weekly_availability'' \<mapsto> JStr a)),
                   p_completed_at = now\<rparr>)] \<and>
            kv_sessions (handleCallbackQuery_base cq env now w) (user_id (cq_from cq)) = None) \<and>
         (minWeeklyHours env \<le> h \<longrightarrow>
            posts (handleCallbackQuery_base cq env now w) = posts w \<and>
            map_option step
              (kv_sessions (handleCallbackQuery_base cq env now w) (user_id (cq_from cq)))
              = Some B_q3_start_date)"
proof -
  from press_admitted[OF adm ld, of "cq_id cq"] obtain w2 where
    c: "checkRateLimit (user_id (cq_from cq)) now (answerCallbackQuery (cq_id cq) w) = (True, w2)"
    and fr: "kv_sessions w2 = kv_sessions w" "sent w2 = sent w" "posts w2 = posts w"
    and ld2: "loadSession (user_id (cq_from cq)) w2 = Some s" by blast
  from pre obtain i where i: "indexOf (press_data cq) (CHR '':'') = Some i"
    and p: "take i (press_data cq) = ''q2''"
    by (cases "indexOf (press_data cq) (CHR '':'')") (auto simp: callback_prefix_def)
  from suf i have d: "drop (Suc i) (press_data cq) = a"
    by (simp add: callback_suffix_def)
  have idx: "indexOf STEP_ORDER_base B_q2_weekly_hours = Some 1"
    by (simp add: indexOf_def STEP_ORDER_base_def)
  have q: "key (QUESTIONS_base ! 1) = ''weekly_availability''"
    by (simp add: QUESTIONS_base_def)
  have nxt: "STEP_ORDER_base ! Suc (Suc 0) = B_q3_start_date" "length STEP_ORDER_base = 5"
    by (simp_all add: STEP_ORDER_base_def)
  have run: "handleCallbackQuery_base cq env now w =
      (if h < minWeeklyHours env
       then reportResult B_completed Fail (Some (BelowMinimumHours (minWeeklyHours env)))
              (s\<lparr>answers := (answers s)(''weekly_availability'' \<mapsto> JStr a)\<rparr>)
              (user_id (cq_from cq)) (cq_from cq) env now w2
       else sendQuestion_base (user_id (cq_from cq)) 2
              (saveSession (user_id (cq_from cq))
                 (s\<lparr>answers := (answers s)(''weekly_availability'' \<mapsto> JStr a),
                    step := B_q3_start_date\<rparr>) w2))"
    unfolding handleCallbackQuery_base_def press_data_def[symmetric] Let_def
    using c ld2 st i p d idx q nxt hours_fail_base[OF hrs, of "minWeeklyHours env"]
    by (simp add: numeral_2_eq_2)
  show ?thesis
    unfolding run using fr
    by (simp add: reportResult_effect deleteSession_def saveSession_def sendMessage_def
          postWebhook_def sendQuestion_base_def Let_def)
qed

lemma hcq_ext_hours:
  assumes adm: "fst (checkRateLimit (user_id (cq_from cq)) now w)"
    and ld: "loadSession (user_id (cq_from cq)) w = Some s"
    and st: "step s = E_q2_weekly_hours"
    and pre: "callback_prefix (CHR ''_'') (press_data cq) = Some ''Q2''"
    and suf: "callback_suffix (CHR ''_'') (press_data cq) = Some k"
    and cat: "catalog_value ''Q2'' k = Some (JStr a)"
    and hrs: "map_of HOURS_MAP_ext a = Some (JNum h)"
  shows "(h < minWeeklyHours env \<longrightarrow>
            posts (handleCallbackQuery_ext cq env now w)
              = posts w @ [(MAKE_WEBHOOK_URL env,
                  \<lparr>p_applicant_token = applicant_token s,
                   p_telegram_chat_id = user_id (cq_from cq),
                   p_telegram_username = username (cq_from cq), p_result = Fail,
                   p_reason = Some (BelowMinimumHours (minWeeklyHours env)),
                   p_answers = json_answers ((answers s)(''weekly_availability'' \<mapsto> JStr a)),
                   p_completed_at = now\<rparr>)] \<and>
            kv_sessions (handleCallbackQuery_ext cq env now w) (user_id (cq_from cq)) = None) \<and>
         (minWeeklyHours env \<le> h \<longrightarrow>
            posts (handleCallbackQuery_ext cq env now w) = posts w \<and>
            map_option step
              (kv_sessions (handleCallbackQuery_ext cq env now w) (user_id (cq_from cq)))
              = Some E_q3_start_date)"
proof -
  from press_admitted[OF adm ld, of "cq_id cq"] obtain w2 where
    c: "checkRateLimit (user_id (cq_from cq)) now (answerCallbackQuery (cq_id cq) w) = (True, w2)"
    and fr: "kv_sessions w2 = kv_sessions w" "sent w2 = sent w" "posts w2 = posts w"
    and ld2: "loadSession (user_id (cq_from cq)) w2 = Some s" by blast
  from pre obtain i where i: "indexOf (press_data cq) (CHR ''_'') = Some i"
    and p: "take i (press_data cq) = ''Q2''"
    by (cases "indexOf (press_data cq) (CHR ''_'')") (auto simp: callback_prefix_def)
  from suf i have d: "drop (Suc i) (press_data cq) = k"
    by (simp add: callback_suffix_def)
  from cat obtain m where m: "map_of CALLBACK_VALUE_MAP ''Q2'' = Some m"
    and mk: "map_of m k = Some (JStr a)"
    by (auto simp: catalog_value_def split: option.splits)
  from mk have g: "js_get m k = JStr a" by (simp add: js_get_def)
  from hours_key_nonempty[OF hrs] have tr: "js_truthy (JStr a)" by simp
  have idx: "indexOf STEP_ORDER_ext E_q2_weekly_hours = Some 1"
    by (simp add: indexOf_def STEP_ORDER_ext_def)
  have q: "key (QUESTIONS_ext ! 1) = ''weekly_availability''"
    by (simp add: QUESTIONS_ext_def)
  have nxt: "STEP_ORDER_ext ! Suc (Suc 0) = E_q3_start_date" "length STEP_ORDER_ext = 8"
    by (simp_all add: STEP_ORDER_ext_def)
  have run: "handleCallbackQuery_ext cq env now w =
      (if h < minWeeklyHours env
       then reportResult E_completed Fail (Some (BelowMinimumHours (minWeeklyHours env)))
              (s\<lparr>answers := (answers s)(''weekly_availability'' \<mapsto> JStr a)\<rparr>)
              (user_id (cq_from cq)) (cq_from cq) env now w2
       else sendQuestion_ext (user_id (cq_from cq)) 2
              (saveSession (user_id (cq_from cq))
                 (s\<lparr>answers := (answers s)(''weekly_availability'' \<mapsto> JStr a),
                    step := E_q3_start_date\<rparr>) w2))"
    unfolding handleCallbackQuery_ext_def press_data_def[symmetric] Let_def
    using c ld2 st i p d m g tr idx q nxt hours_fail_ext[OF hrs, of "minWeeklyHours env"]
    by (simp add: numeral_2_eq_2)
  show ?thesis
    unfolding run using fr
    by (simp add: reportResult_effect deleteSession_def saveSession_def sendMessage_def
          postWebhook_def sendQuestion_ext_def Let_def)
qed

text \<open>
  Claim C9. When \<open>MIN_WEEKLY_HOURS\<close> is absent, when \<open>parseInt\<close> finds no number in it, and
  when it parses to 0, the threshold is 15, and it is the threshold in force in the
  transition of either worker: a press that the rate limiter allows, on a session at the
  availability question, with a listed answer worth \<open>h\<close> hours, ends the screening with a
  fail verdict whose reason names the minimum 15 when \<open>h < 15\<close> and moves the session to
  the next question when \<open>15 \<le> h\<close>. (The other questions do not look at the threshold.)
  Whatever the configuration, the threshold is never 0.
\<close>

theorem min_hours_default:
  "(min_hours_unusable env \<longrightarrow> minWeeklyHours env = 15) \<and>
   minWeeklyHours env \<noteq> 0 \<and>
   (min_hours_unusable env \<and>
    fst (checkRateLimit (user_id (cq_from cqb)) now wb) \<and>
    loadSession (user_id (cq_from cqb)) wb = Some sb \<and> step sb = B_q2_weekly_hours \<and>
    callback_prefix (CHR '':'') (press_data cqb) = Some ''q2'' \<and>
    callback_suffix (CHR '':'') (press_data cqb) = Some ab \<and>
    map_of HOURS_MAP_base ab = Some (JNum hb) \<longrightarrow>
      (hb < 15 \<longrightarrow>
         posts (handleCallbackQuery_base cqb env now wb)
           = posts wb @ [(MAKE_WEBHOOK_URL env,
               \<lparr>p_applicant_token = applicant_token sb,
                p_telegram_chat_id = user_id (cq_from cqb),
                p_telegram_username = username (cq_from cqb), p_result = Fail,
                p_reason = Some (BelowMinimumHours 15),
                p_answers = json_answers ((answers sb)(''weekly_availability'' \<mapsto> JStr ab)),
                p_completed_at = now\<rparr>)] \<and>
         kv_sessions (handleCallbackQuery_base cqb env now wb) (user_id (cq_from cqb)) = None) \<and>
      (15 \<le> hb \<longrightarrow>
         posts (handleCallbackQuery_base cqb env now wb) = posts wb \<and>
         map_option step
           (kv_sessions (handleCallbackQuery_base cqb env now wb) (user_id (cq_from cqb)))
           = Some B_q3_start_date)) \<and>
   (min_hours_unusable env \<and>
    fst (checkRateLimit (user_id (cq_from cqe)) now we) \<and>
    loadSession (user_id (cq_from cqe)) we = Some se \<and> step se = E_q2_weekly_hours \<and>
    callback_prefix (CHR ''_'') (press_data cqe) = Some ''Q2'' \<and>
    callback_suffix (CHR ''_'') (press_data cqe) = Some k \<and>
    catalog_value ''Q2'' k = Some (JStr ae) \<and>
    map_of HOURS_MAP_ext ae = Some (JNum he) \<longrightarrow>
      (he < 15 \<longrightarrow>
         posts (handleCallbackQuery_ext cqe env now we)
           = posts we @ [(MAKE_WEBHOOK_URL env,
               \<lparr>p_applicant_token = applicant_token se,
                p_telegram_chat_id = user_id (cq_from cqe),
                p_telegram_username = username (cq_from cqe), p_result = Fail,
                p_reason = Some (BelowMinimumHours 15),
                p_answers = json_answers ((answers se)(''weekly_availability'' \<mapsto> JStr ae)),
                p_completed_at = now\<rparr>)] \<and>
         kv_sessions (handleCallbackQuery_ext cqe env now we) (user_id (cq_from cqe)) = None) \<and>
      (15 \<le> he \<longrightarrow>
         posts (handleCallbackQuery_ext cqe env now we) = posts we \<and>
         map_option step
           (kv_sessions (handleCallbackQuery_ext cqe env now we) (user_id (cq_from cqe)))
           = Some E_q3_start_date))"
proof -
  have d: "parseInt (units ''15'') = Some 15"
    by (simp add: units_def parseInt_def is_space_def is_digit_def digit_val_def)
  have A: "min_hours_unusable env \<Longrightarrow> minWeeklyHours env = 15"
    using d by (auto simp add: min_hours_unusable_def minWeeklyHours_def split: option.splits)
  have B: "minWeeklyHours env \<noteq> 0"
    by (auto simp add: minWeeklyHours_def split: option.splits)
  have A': "min_hours_unusable env \<longrightarrow> minWeeklyHours env = 15"
    using A by blast
  have C: "min_hours_unusable env \<and>
      fst (checkRateLimit (user_id (cq_from cqb)) now wb) \<and>
      loadSession (user_id (cq_from cqb)) wb = Some sb \<and> step sb = B_q2_weekly_hours \<and>
      callback_prefix (CHR '':'') (press_data cqb) = Some ''q2'' \<and>
      callback_suffix (CHR '':'') (press_data cqb) = Some ab \<and>
      map_of HOURS_MAP_base ab = Some (JNum hb) \<longrightarrow>
      (hb < 15 \<longrightarrow>
         posts (handleCallbackQuery_base cqb env now wb)
           = posts wb @ [(MAKE_WEBHOOK_URL env,
               \<lparr>p_applicant_token = applicant_token sb,
                p_telegram_chat_id = user_id (cq_from cqb),
                p_telegram_username = username (cq_from cqb), p_result = Fail,
                p_reason = Some (BelowMinimumHours 15),
                p_answers = json_answers ((answers sb)(''weekly_availability'' \<mapsto> JStr ab)),
                p_completed_at = now\<rparr>)] \<and>
         kv_sessions (handleCallbackQuery_base cqb env now wb) (user_id (cq_from cqb)) = None) \<and>
      (15 \<le> hb \<longrightarrow>
         posts (handleCallbackQuery_base cqb env now wb) = posts wb \<and>
         map_option step
           (kv_sessions (handleCallbackQuery_base cqb env now wb) (user_id (cq_from cqb)))
           = Some B_q3_start_date)"
  proof
    assume h: "min_hours_unusable env \<and>
      fst (checkRateLimit (user_id (cq_from cqb)) now wb) \<and>
      loadSession (user_id (cq_from cqb)) wb = Some sb \<and> step sb = B_q2_weekly_hours \<and>
      callback_prefix (CHR '':'') (press_data cqb) = Some ''q2'' \<and>
      callback_suffix (CHR '':'') (press_data cqb) = Some ab \<and>
      map_of HOURS_MAP_base ab = Some (JNum hb)"
    then have m: "minWeeklyHours env = 15" using A by blast
    from h hcq_base_hours[of cqb now wb sb ab hb env]
    show "(hb < 15 \<longrightarrow>
         posts (handleCallbackQuery_base cqb env now wb)
           = posts wb @ [(MAKE_WEBHOOK_URL env,
               \<lparr>p_applicant_token = applicant_token sb,
                p_telegram_chat_id = user_id (cq_from cqb),
                p_telegram_username = username (cq_from cqb), p_result = Fail,
                p_reason = Some (BelowMinimumHours 15),
                p_answers = json_answers ((answers sb)(''weekly_availability'' \<mapsto> JStr ab)),
                p_completed_at = now\<rparr>)] \<and>
         kv_sessions (handleCallbackQuery_base cqb env now wb) (user_id (cq_from cqb)) = None) \<and>
      (15 \<le> hb \<longrightarrow>
         posts (handleCallbackQuery_base cqb env now wb) = posts wb \<and>
         map_option step
           (kv_sessions (handleCallbackQuery_base cqb env now wb) (user_id (cq_from cqb)))
           = Some B_q3_start_date)"
      unfolding m by blast
  qed
  have D: "min_hours_unusable env \<and>
      fst (checkRateLimit (user_id (cq_from cqe)) now we) \<and>
      loadSession (user_id (cq_from cqe)) we = Some se \<and> step se = E_q2_weekly_hours \<and>
      callback_prefix (CHR ''_'') (press_data cqe) = Some ''Q2'' \<and>
      callback_suffix (CHR ''_'') (press_data cqe) = Some k \<and>
      catalog_value ''Q2'' k = Some (JStr ae) \<and>
      map_of HOURS_MAP_ext ae = Some (JNum he) \<longrightarrow>
      (he < 15 \<longrightarrow>
         posts (handleCallbackQuery_ext cqe env now we)
           = posts we @ [(MAKE_WEBHOOK_URL env,
               \<lparr>p_applicant_token = applicant_token se,
                p_telegram_chat_id = user_id (cq_from cqe),
                p_telegram_username = username (cq_from cqe), p_result = Fail,
                p_reason = Some (BelowMinimumHours 15),
                p_answers = json_answers ((answers se)(''weekly_availability'' \<mapsto> JStr ae)),
                p_completed_at = now\<rparr>)] \<and>
         kv_sessions (handleCallbackQuery_ext cqe env now we) (user_id (cq_from cqe)) = None) \<and>
      (15 \<le> he \<longrightarrow>
         posts (handleCallbackQuery_ext cqe env now we) = posts we \<and>
         map_option step
           (kv_sessions (handleCallbackQuery_ext cqe env now we) (user_id (cq_from cqe)))
           = Some E_q3_start_date)"
  proof
    assume h: "min_hours_unusable env \<and>
      fst (checkRateLimit (user_id (cq_from cqe)) now we) \<and>
      loadSession (user_id (cq_from cqe)) we = Some se \<and> step se = E_q2_weekly_hours \<and>
      callback_prefix (CHR ''_'') (press_data cqe) = Some ''Q2'' \<and>
      callback_suffix (CHR ''_'') (press_data cqe) = Some k \<and>
      catalog_value ''Q2'' k = Some (JStr ae) \<and>
      map_of HOURS_MAP_ext ae = Some (JNum he)"
    then have m: "minWeeklyHours env = 15" using A by blast
    from h hcq_ext_hours[of cqe now we se k ae he env]
    show "(he < 15 \<longrightarrow>
         posts (handleCallbackQuery_ext cqe env now we)
           = posts we @ [(MAKE_WEBHOOK_URL env,
               \<lparr>p_applicant_token = applicant_token se,
                p_telegram_chat_id = user_id (cq_from cqe),
                p_telegram_username = username (cq_from cqe), p_result = Fail,
                p_reason = Some (BelowMinimumHours 15),
                p_answers = json_answers ((answers se)(''weekly_availability'' \<mapsto> JStr ae)),
                p_completed_at = now\<rparr>)] \<and>
         kv_sessions (handleCallbackQuery_ext cqe env now we) (user_id (cq_from cqe)) = None) \<and>
      (15 \<le> he \<longrightarrow>
         posts (handleCallbackQuery_ext cqe env now we) = posts we \<and>
         map_option step
           (kv_sessions (handleCallbackQuery_ext cqe env now we) (user_id (cq_from cqe)))
           = Some E_q3_start_date)"
      unfolding m by blast
  qed
  show ?thesis by (intro conjI A' B C D)
qed

theorem min_hours_default_witness:
  "min_hours_unusable (ex_env\<lparr>MIN_WEEKLY_HOURS := Some (units ''0'')\<rparr>) \<and>
   min_hours_unusable (ex_env\<lparr>MIN_WEEKLY_HOURS := Some (units ''many'')\<rparr>) \<and>
   min_hours_unusable ex_env \<and>
   minWeeklyHours (ex_env\<lparr>MIN_WEEKLY_HOURS := Some (units ''0'')\<rparr>) = 15 \<and>
   minWeeklyHours (ex_env\<lparr>MIN_WEEKLY_HOURS := Some (units ''many'')\<rparr>) = 15 \<and>
   minWeeklyHours ex_env = 15 \<and>
   minWeeklyHours (ex_env\<lparr>MIN_WEEKLY_HOURS := Some (units ''25'')\<rparr>) = 25 \<and>
   minWeeklyHours (ex_env\<lparr>MIN_WEEKLY_HOURS := Some (0xA0 # units ''20'')\<rparr>) = 20 \<and>
   p_reason (snd (hd (posts
     (handleCallbackQuery_base (ex_press ''q2:less_than_15'')
        (ex_env\<lparr>MIN_WEEKLY_HOURS := Some (units ''0'')\<rparr>) 0 (ex_world B_q2_weekly_hours)))))
     = Some (BelowMinimumHours 15) \<and>
   kv_sessions
     (handleCallbackQuery_base (ex_press ''q2:less_than_15'')
        (ex_env\<lparr>MIN_WEEKLY_HOURS := Some (units ''0'')\<rparr>) 0 (ex_world B_q2_weekly_hours)) 7
     = None \<and>
   p_reason (snd (hd (posts
     (handleCallbackQuery_ext (ex_press ''Q2_LOW'')
        (ex_env\<lparr>MIN_WEEKLY_HOURS := Some (units ''0'')\<rparr>) 0 (ex_world E_q2_weekly_hours)))))
     = Some (BelowMinimumHours 15) \<and>
   map_option step
     (kv_sessions
        (handleCallbackQuery_ext (ex_press ''Q2_PT'') ex_env 0 (ex_world E_q2_weekly_hours)) 7)
     = Some E_q3_start_date"
proof -
  let ?e0 = "ex_env\<lparr>MIN_WEEKLY_HOURS := Some (units ''0'')\<rparr>"
  have u: "min_hours_unusable ?e0"
    "min_hours_unusable (ex_env\<lparr>MIN_WEEKLY_HOURS := Some (units ''many'')\<rparr>)"
    "min_hours_unusable ex_env"
    by (simp_all add: min_hours_unusable_def ex_env_def units_def parseInt_def is_space_def
          is_digit_def digit_val_def)
  have c: "minWeeklyHours (ex_env\<lparr>MIN_WEEKLY_HOURS := Some (units ''25'')\<rparr>) = 25"
    "minWeeklyHours (ex_env\<lparr>MIN_WEEKLY_HOURS := Some (0xA0 # units ''20'')\<rparr>) = 20"
    by (simp_all add: minWeeklyHours_def units_def parseInt_def is_space_def is_digit_def
          digit_val_def)
  have hb: "fst (checkRateLimit (user_id (cq_from (ex_press ''q2:less_than_15''))) 0
                  (ex_world B_q2_weekly_hours))"
    "loadSession (user_id (cq_from (ex_press ''q2:less_than_15''))) (ex_world B_q2_weekly_hours)
       = Some (ex_session B_q2_weekly_hours)"
    "step (ex_session B_q2_weekly_hours) = B_q2_weekly_hours"
    "callback_prefix (CHR '':'') (press_data (ex_press ''q2:less_than_15'')) = Some ''q2''"
    "callback_suffix (CHR '':'') (press_data (ex_press ''q2:less_than_15''))
       = Some ''less_than_15''"
    "map_of HOURS_MAP_base ''less_than_15'' = Some (JNum 0)"
    by (simp_all add: ex_defs io_defs stmt_defs indexOf_def Let_def HOURS_MAP_base_def)
  have he: "fst (checkRateLimit (user_id (cq_from (ex_press ''Q2_LOW''))) 0
                  (ex_world E_q2_weekly_hours))"
    "loadSession (user_id (cq_from (ex_press ''Q2_LOW''))) (ex_world E_q2_weekly_hours)
       = Some (ex_session E_q2_weekly_hours)"
    "step (ex_session E_q2_weekly_hours) = E_q2_weekly_hours"
    "callback_prefix (CHR ''_'') (press_data (ex_press ''Q2_LOW'')) = Some ''Q2''"
    "callback_suffix (CHR ''_'') (press_data (ex_press ''Q2_LOW'')) = Some ''LOW''"
    "catalog_value ''Q2'' ''LOW'' = Some (JStr ''low'')"
    "map_of HOURS_MAP_ext ''low'' = Some (JNum 0)"
    by (simp_all add: ex_defs io_defs stmt_defs indexOf_def Let_def HOURS_MAP_ext_def
          CALLBACK_VALUE_MAP_def)
  have hp: "fst (checkRateLimit (user_id (cq_from (ex_press ''Q2_PT''))) 0
                  (ex_world E_q2_weekly_hours))"
    "loadSession (user_id (cq_from (ex_press ''Q2_PT''))) (ex_world E_q2_weekly_hours)
       = Some (ex_session E_q2_weekly_hours)"
    "callback_prefix (CHR ''_'') (press_data (ex_press ''Q2_PT'')) = Some ''Q2''"
    "callback_suffix (CHR ''_'') (press_data (ex_press ''Q2_PT'')) = Some ''PT''"
    "catalog_value ''Q2'' ''PT'' = Some (JStr ''part_time'')"
    "map_of HOURS_MAP_ext ''part_time'' = Some (JNum 20)"
    by (simp_all add: ex_defs io_defs stmt_defs indexOf_def Let_def HOURS_MAP_ext_def
          CALLBACK_VALUE_MAP_def)
  have p0: "posts (ex_world B_q2_weekly_hours) = []" "posts (ex_world E_q2_weekly_hours) = []"
    "user_id (cq_from (ex_press ''q2:less_than_15'')) = 7"
    "user_id (cq_from (ex_press ''Q2_LOW'')) = 7" "user_id (cq_from (ex_press ''Q2_PT'')) = 7"
    by (simp_all add: ex_defs)
  have m: "minWeeklyHours ?e0 = 15"
    "minWeeklyHours (ex_env\<lparr>MIN_WEEKLY_HOURS := Some (units ''many'')\<rparr>) = 15"
    "minWeeklyHours ex_env = 15"
    using min_hours_default[where env = ?e0, THEN conjunct1, THEN mp, OF u(1)]
      min_hours_default[where env = "ex_env\<lparr>MIN_WEEKLY_HOURS := Some (units ''many'')\<rparr>",
        THEN conjunct1, THEN mp, OF u(2)]
      min_hours_default[where env = ex_env, THEN conjunct1, THEN mp, OF u(3)]
    by - assumption+
  note Tb = min_hours_default[where env = ?e0 and cqb = "ex_press ''q2:less_than_15''"
        and now = 0 and wb = "ex_world B_q2_weekly_hours"
        and sb = "ex_session B_q2_weekly_hours" and ab = "''less_than_15''" and hb = 0,
        THEN conjunct2, THEN conjunct2, THEN conjunct1, THEN mp, THEN conjunct1, THEN mp]
  have rb: "posts (handleCallbackQuery_base (ex_press ''q2:less_than_15'') ?e0 0
                     (ex_world B_q2_weekly_hours))
      = posts (ex_world B_q2_weekly_hours) @ [(MAKE_WEBHOOK_URL ?e0,
          \<lparr>p_applicant_token = applicant_token (ex_session B_q2_weekly_hours),
           p_telegram_chat_id = user_id (cq_from (ex_press ''q2:less_than_15'')),
           p_telegram_username = username (cq_from (ex_press ''q2:less_than_15'')),
           p_result = Fail, p_reason = Some (BelowMinimumHours 15),
           p_answers = json_answers ((answers (ex_session B_q2_weekly_hours))
                         (''weekly_availability'' \<mapsto> JStr ''less_than_15'')),
           p_completed_at = 0\<rparr>)] \<and>
     kv_sessions (handleCallbackQuery_base (ex_press ''q2:less_than_15'') ?e0 0
                    (ex_world B_q2_weekly_hours))
       (user_id (cq_from (ex_press ''q2:less_than_15''))) = None"
    by (rule Tb) (intro conjI u(1) hb, simp)
  note Te = min_hours_default[where env = ?e0 and cqe = "ex_press ''Q2_LOW''"
        and now = 0 and we = "ex_world E_q2_weekly_hours"
        and se = "ex_session E_q2_weekly_hours" and k = "''LOW''" and ae = "''low''"
        and he = 0,
        THEN conjunct2, THEN conjunct2, THEN conjunct2, THEN mp, THEN conjunct1, THEN mp]
  have re: "posts (handleCallbackQuery_ext (ex_press ''Q2_LOW'') ?e0 0
                     (ex_world E_q2_weekly_hours))
      = posts (ex_world E_q2_weekly_hours) @ [(MAKE_WEBHOOK_URL ?e0,
          \<lparr>p_applicant_token = applicant_token (ex_session E_q2_weekly_hours),
           p_telegram_chat_id = user_id (cq_from (ex_press ''Q2_LOW'')),
           p_telegram_username = username (cq_from (ex_press ''Q2_LOW'')),
           p_result = Fail, p_reason = Some (BelowMinimumHours 15),
           p_answers = json_answers ((answers (ex_session E_q2_weekly_hours))
                         (''weekly_availability'' \<mapsto> JStr ''low'')),
           p_completed_at = 0\<rparr>)] \<and>
     kv_sessions (handleCallbackQuery_ext (ex_press ''Q2_LOW'') ?e0 0
                    (ex_world E_q2_weekly_hours))
       (user_id (cq_from (ex_press ''Q2_LOW''))) = None"
    by (rule Te) (intro conjI u(1) he, simp)
  note Tp = min_hours_default[where env = ex_env and cqe = "ex_press ''Q2_PT''"
        and now = 0 and we = "ex_world E_q2_weekly_hours"
        and se = "ex_session E_q2_weekly_hours" and k = "''PT''" and ae = "''part_time''"
        and he = 20,
        THEN conjunct2, THEN conjunct2, THEN conjunct2, THEN mp, THEN conjunct2, THEN mp]
  have rp: "posts (handleCallbackQuery_ext (ex_press ''Q2_PT'') ex_env 0
                     (ex_world E_q2_weekly_hours)) = posts (ex_world E_q2_weekly_hours) \<and>
     map_option step
       (kv_sessions (handleCallbackQuery_ext (ex_press ''Q2_PT'') ex_env 0
                       (ex_world E_q2_weekly_hours))
          (user_id (cq_from (ex_press ''Q2_PT'')))) = Some E_q3_start_date"
    by (rule Tp) (intro conjI u(3) hp he(3), simp)
  have fb: "p_reason (snd (hd (posts
     (handleCallbackQuery_base (ex_press ''q2:less_than_15'') ?e0 0
        (ex_world B_q2_weekly_hours))))) = Some (BelowMinimumHours 15)"
    unfolding rb[THEN conjunct1] by (simp add: p0)
  have fe: "p_reason (snd (hd (posts
     (handleCallbackQuery_ext (ex_press ''Q2_LOW'') ?e0 0
        (ex_world E_q2_weekly_hours))))) = Some (BelowMinimumHours 15)"
    unfolding re[THEN conjunct1] by (simp add: p0)
  from rb[THEN conjunct2] rp[THEN conjunct2]
  have k: "kv_sessions (handleCallbackQuery_base (ex_press ''q2:less_than_15'') ?e0 0
                    (ex_world B_q2_weekly_hours)) 7 = None"
    "map_option step
       (kv_sessions (handleCallbackQuery_ext (ex_press ''Q2_PT'') ex_env 0
                       (ex_world E_q2_weekly_hours)) 7) = Some E_q3_start_date"
    unfolding p0 by -
  from u m c fb fe k show ?thesis by (intro conjI)
qed

subsection \<open>The free-text age question\<close>

lemma text_admitted:
  assumes "fst (checkRateLimit c now w)" and "loadSession c w = Some s"
  obtains w1 where "checkRateLimit c now w = (True, w1)"
    and "kv_sessions w1 = kv_sessions w" and "sent w1 = sent w" and "posts w1 = posts w"
    and "loadSession c w1 = Some s"
proof -
  obtain b w1 where c: "checkRateLimit c now w = (b, w1)"
    by (cases "checkRateLimit c now w")
  with assms(1) have b: "b" by simp
  from checkRateLimit_frame[OF c]
  have fr: "kv_sessions w1 = kv_sessions w" "sent w1 = sent w" "posts w1 = posts w"
    by simp_all
  with assms(2) have "loadSession c w1 = Some s" by (simp add: loadSession_def)
  with c b fr that show thesis by simp
qed

text \<open>What \<open>handleMessage\<close> does with a text that is not a command, on the age step.\<close>

lemma hm_age_step:
  assumes c: "checkRateLimit chatId now w = (True, w1)"
    and ld: "loadSession chatId w1 = Some s"
    and st: "step s = E_q7_age"
    and nc: "\<not> is_command (message_text txt)"
  shows "handleMessage_ext chatId from txt env now w =
      (case parseInt (message_text txt) of
         None \<Rightarrow> sendMessage chatId AgeReprompt None w1
       | Some parsed \<Rightarrow>
           if parsed < 10 \<or> parsed > 80 then sendMessage chatId AgeReprompt None w1
           else if parsed \<ge> 35
             then reportResult E_completed Fail (Some AgeLimit)
                    (s\<lparr>answers := (answers s)(''age'' \<mapsto> JNum parsed)\<rparr>) chatId from env now w1
             else sendQuestion_ext chatId 7
                    (saveSession chatId
                       (s\<lparr>answers := (answers s)(''age'' \<mapsto> JNum parsed),
                          step := E_q8_student_types\<rparr>) w1))"
proof -
  have idx: "indexOf STEP_ORDER_ext E_q7_age = Some 6"
    by (simp add: indexOf_def STEP_ORDER_ext_def)
  have nth: "STEP_ORDER_ext ! 7 = E_q8_student_types"
    by (simp add: STEP_ORDER_ext_def)
  from nc have n1: "\<not> startsWith (message_text txt) (units ''/start'')"
    and n2: "\<not> startsWith (message_text txt) (units ''/restart'')"
    and n3: "\<not> startsWith (message_text txt) (units ''/help'')"
    by (simp_all add: is_command_def)
  show ?thesis
    unfolding handleMessage_ext_def message_text_def[symmetric] Let_def
    using c ld st n1 n2 n3 idx nth
    by (simp split: option.splits)
qed

lemma hm_age_reprompt:
  assumes adm: "fst (checkRateLimit chatId now w)"
    and ld: "loadSession chatId w = Some s"
    and st: "step s = E_q7_age"
    and nc: "\<not> is_command (message_text txt)"
    and bad: "parseInt (message_text txt) = None \<or>
              (\<exists>p. parseInt (message_text txt) = Some p \<and> (p < 10 \<or> p > 80))"
  shows "sent (handleMessage_ext chatId from txt env now w)
           = sent w @ [(chatId, AgeReprompt, None)] \<and>
         kv_sessions (handleMessage_ext chatId from txt env now w) = kv_sessions w \<and>
         posts (handleMessage_ext chatId from txt env now w) = posts w"
proof -
  from text_admitted[OF adm ld] obtain w1 where
    c: "checkRateLimit chatId now w = (True, w1)"
    and fr: "kv_sessions w1 = kv_sessions w" "sent w1 = sent w" "posts w1 = posts w"
    and ld1: "loadSession chatId w1 = Some s" by blast
  from bad have "handleMessage_ext chatId from txt env now w
                   = sendMessage chatId AgeReprompt None w1"
    unfolding hm_age_step[OF c ld1 st nc] by auto
  with fr show ?thesis by (simp add: sendMessage_def)
qed

lemma hm_age_gate:
  assumes adm: "fst (checkRateLimit chatId now w)"
    and ld: "loadSession chatId w = Some s"
    and st: "step s = E_q7_age"
    and nc: "\<not> is_command (message_text txt)"
    and p: "parseInt (message_text txt) = Some p" and lo: "10 \<le> p" and hi: "p \<le> 80"
  shows "(35 \<le> p \<longrightarrow>
            posts (handleMessage_ext chatId from txt env now w)
              = posts w @ [(MAKE_WEBHOOK_URL env,
                  \<lparr>p_applicant_token = applicant_token s, p_telegram_chat_id = chatId,
                   p_telegram_username = username from, p_result = Fail,
                   p_reason = Some AgeLimit,
                   p_answers = json_answers ((answers s)(''age'' \<mapsto> JNum p)),
                   p_completed_at = now\<rparr>)] \<and>
            sent (handleMessage_ext chatId from txt env now w)
              = sent w @ [(chatId, FailNotice (Some AgeLimit), None)] \<and>
            kv_sessions (handleMessage_ext chatId from txt env now w) chatId = None) \<and>
         (p < 35 \<longrightarrow>
            posts (handleMessage_ext chatId from txt env now w) = posts w \<and>
            map_option step (kv_sessions (handleMessage_ext chatId from txt env now w) chatId)
              = Some E_q8_student_types)"
proof -
  from text_admitted[OF adm ld] obtain w1 where
    c: "checkRateLimit chatId now w = (True, w1)"
    and fr: "kv_sessions w1 = kv_sessions w" "sent w1 = sent w" "posts w1 = posts w"
    and ld1: "loadSession chatId w1 = Some s" by blast
  show ?thesis
    unfolding hm_age_step[OF c ld1 st nc] using p lo hi fr
    by (simp add: reportResult_effect deleteSession_def saveSession_def sendMessage_def
          postWebhook_def sendQuestion_ext_def Let_def)
qed

text \<open>
  Claim C7. In the second worker, a text message that the rate limiter allows, that is not
  one of the commands, and that reaches a session on the age step, is answered with the
  re-prompt and nothing else when \<open>parseInt\<close> finds no number in it or finds one below 10
  or above 80 (as for \<open>200\<close>): the session store is unchanged, so the step is not advanced
  and no answer is recorded, and no result is posted.
\<close>

theorem age_reprompt:
  assumes "fst (checkRateLimit chatId now w)"
    and "loadSession chatId w = Some s"
    and "step s = E_q7_age"
    and "\<not> is_command (message_text txt)"
    and "parseInt (message_text txt) = None \<or>
         (\<exists>p. parseInt (message_text txt) = Some p \<and> (p < 10 \<or> p > 80))"
  shows "sent (handleMessage_ext chatId from txt env now w)
           = sent w @ [(chatId, AgeReprompt, None)] \<and>
         kv_sessions (handleMessage_ext chatId from txt env now w) = kv_sessions w \<and>
         posts (handleMessage_ext chatId from txt env now w) = posts w"
  using assms by (rule hm_age_reprompt)

theorem age_reprompt_witness:
  "fst (checkRateLimit 7 0 (ex_world E_q7_age)) \<and>
   loadSession 7 (ex_world E_q7_age) = Some (ex_session E_q7_age) \<and>
   step (ex_session E_q7_age) = E_q7_age \<and>
   \<not> is_command (message_text (Some (units ''200''))) \<and>
   parseInt (message_text (Some (units ''200''))) = Some 200 \<and>
   \<not> is_command (message_text (Some (units '' twenty ''))) \<and>
   parseInt (message_text (Some (units '' twenty ''))) = None \<and>
   \<not> is_command (message_text (Some (0xA0 # units ''9''))) \<and>
   parseInt (message_text (Some (0xA0 # units ''9''))) = Some 9 \<and>
   sent (handleMessage_ext 7 ex_user (Some (units ''200'')) ex_env 0 (ex_world E_q7_age))
     = [(7, AgeReprompt, None)] \<and>
   kv_sessions (handleMessage_ext 7 ex_user (Some (units ''200'')) ex_env 0 (ex_world E_q7_age))
     = kv_sessions (ex_world E_q7_age) \<and>
   sent (handleMessage_ext 7 ex_user (Some (units '' twenty '')) ex_env 0 (ex_world E_q7_age))
     = [(7, AgeReprompt, None)] \<and>
   kv_sessions (handleMessage_ext 7 ex_user (Some (units '' twenty '')) ex_env 0 (ex_world E_q7_age))
     = kv_sessions (ex_world E_q7_age) \<and>
   sent (handleMessage_ext 7 ex_user (Some (0xA0 # units ''9'')) ex_env 0 (ex_world E_q7_age))
     = [(7, AgeReprompt, None)] \<and>
   kv_sessions (handleMessage_ext 7 ex_user (Some (0xA0 # units ''9'')) ex_env 0 (ex_world E_q7_age))
     = kv_sessions (ex_world E_q7_age)"
proof -
  have h: "fst (checkRateLimit 7 0 (ex_world E_q7_age))"
    "loadSession 7 (ex_world E_q7_age) = Some (ex_session E_q7_age)"
    "step (ex_session E_q7_age) = E_q7_age"
    by (simp_all add: ex_defs io_defs Let_def)
  have n: "\<not> is_command (message_text (Some (units ''200'')))"
    "\<not> is_command (message_text (Some (units '' twenty '')))"
    "\<not> is_command (message_text (Some (0xA0 # units ''9'')))"
    by (simp_all add: stmt_defs str_defs)
  have p: "parseInt (message_text (Some (units ''200''))) = Some 200"
    "parseInt (message_text (Some (units '' twenty ''))) = None"
    "parseInt (message_text (Some (0xA0 # units ''9''))) = Some 9"
    by (simp_all add: stmt_defs str_defs)
  have s0: "sent (ex_world E_q7_age) = []" by (simp add: ex_world_def)
  from p have b1: "parseInt (message_text (Some (units ''200''))) = None \<or>
      (\<exists>p. parseInt (message_text (Some (units ''200''))) = Some p \<and> (p < 10 \<or> p > 80))"
    and b2: "parseInt (message_text (Some (units '' twenty ''))) = None \<or>
      (\<exists>p. parseInt (message_text (Some (units '' twenty ''))) = Some p \<and> (p < 10 \<or> p > 80))"
    and b3: "parseInt (message_text (Some (0xA0 # units ''9''))) = None \<or>
      (\<exists>p. parseInt (message_text (Some (0xA0 # units ''9''))) = Some p \<and> (p < 10 \<or> p > 80))"
    by simp_all
  from age_reprompt[OF h n(1) b1, of ex_user ex_env] age_reprompt[OF h n(2) b2, of ex_user ex_env]
    age_reprompt[OF h n(3) b3, of ex_user ex_env] h n p
  show ?thesis by (simp add: s0)
qed

text \<open>
  White space that is not ASCII is skipped like any other: a no-break space before \<open>40\<close>
  does not keep the age from being parsed, and a no-break space before \<open>/start\<close>
  does not keep the text from being a command.
\<close>

lemma nbsp_is_white_space:
  "parseInt (message_text (Some (0xA0 # units ''40''))) = Some 40 \<and>
   p_reason (snd (hd (posts (handleMessage_ext 7 ex_user (Some (0xA0 # units ''40'')) ex_env 0
                               (ex_world E_q7_age))))) = Some AgeLimit \<and>
   kv_sessions (handleMessage_ext 7 ex_user (Some (0xA0 # units ''40'')) ex_env 0
                  (ex_world E_q7_age)) 7 = None \<and>
   is_command (message_text (Some (0x3000 # units ''/start tok-9999'')))"
  by (simp add: ext_defs ex_defs str_defs io_defs stmt_defs Let_def)

text \<open>
  Claim C4, as stated, fails: the configuration has no field for a maximum age, and with
  nothing optional configured the age 40 (within the declared bounds) ends the screening
  with a fail verdict for the age limit. There is an age gate by default.
\<close>

theorem age_gate_unconfigured_fails:
  "MIN_WEEKLY_HOURS ex_env = None \<and>
   fst (checkRateLimit 7 0 (ex_world E_q7_age)) \<and>
   loadSession 7 (ex_world E_q7_age) = Some (ex_session E_q7_age) \<and>
   parseInt (message_text (Some (units ''40''))) = Some 40 \<and>
   p_result (snd (hd (posts (handleMessage_ext 7 ex_user (Some (units ''40'')) ex_env 0
                               (ex_world E_q7_age))))) = Fail \<and>
   p_reason (snd (hd (posts (handleMessage_ext 7 ex_user (Some (units ''40'')) ex_env 0
                               (ex_world E_q7_age))))) = Some AgeLimit \<and>
   sent (handleMessage_ext 7 ex_user (Some (units ''40'')) ex_env 0 (ex_world E_q7_age))
     = [(7, FailNotice (Some AgeLimit), None)] \<and>
   kv_sessions (handleMessage_ext 7 ex_user (Some (units ''40'')) ex_env 0 (ex_world E_q7_age)) 7 = None"
  by (simp add: ext_defs ex_defs str_defs io_defs stmt_defs Let_def)

text \<open>
  Claim C4, amended. In the second worker the maximum age is the constant 35, the same for
  every configuration: a text message that the rate limiter allows, that is not a command,
  that reaches a session on the age step and in which \<open>parseInt\<close> finds an age \<open>p\<close> within
  the declared bounds (10 to 80) ends the screening with a fail verdict for the age limit
  when \<open>35 \<le> p\<close> (one result posted, the fail message sent, the session deleted), and
  moves the session to the last question without posting a result when \<open>p < 35\<close>.
\<close>

theorem age_gate_fixed:
  assumes "fst (checkRateLimit chatId now w)"
    and "loadSession chatId w = Some s"
    and "step s = E_q7_age"
    and "\<not> is_command (message_text txt)"
    and "parseInt (message_text txt) = Some p" and "10 \<le> p" and "p \<le> 80"
  shows "(35 \<le> p \<longrightarrow>
            posts (handleMessage_ext chatId from txt env now w)
              = posts w @ [(MAKE_WEBHOOK_URL env,
                  \<lparr>p_applicant_token = applicant_token s, p_telegram_chat_id = chatId,
                   p_telegram_username = username from, p_result = Fail,
                   p_reason = Some AgeLimit,
                   p_answers = json_answers ((answers s)(''age'' \<mapsto> JNum p)),
                   p_completed_at = now\<rparr>)] \<and>
            sent (handleMessage_ext chatId from txt env now w)
              = sent w @ [(chatId, FailNotice (Some AgeLimit), None)] \<and>
            kv_sessions (handleMessage_ext chatId from txt env now w) chatId = None) \<and>
         (p < 35 \<longrightarrow>
            posts (handleMessage_ext chatId from txt env now w) = posts w \<and>
            map_option step (kv_sessions (handleMessage_ext chatId from txt env now w) chatId)
              = Some E_q8_student_types)"
  using assms by (rule hm_age_gate)

theorem age_gate_fixed_witness:
  "fst (checkRateLimit 7 0 (ex_world E_q7_age)) \<and>
   loadSession 7 (ex_world E_q7_age) = Some (ex_session E_q7_age) \<and>
   step (ex_session E_q7_age) = E_q7_age \<and>
   \<not> is_command (message_text (Some (units ''35''))) \<and>
   parseInt (message_text (Some (units ''35''))) = Some 35 \<and>
   \<not> is_command (message_text (Some (units ''34''))) \<and>
   parseInt (message_text (Some (units ''34''))) = Some 34 \<and>
   sent (handleMessage_ext 7 ex_user (Some (units ''35''))
           (ex_env\<lparr>MIN_WEEKLY_HOURS := Some (units ''99'')\<rparr>) 0 (ex_world E_q7_age))
     = [(7, FailNotice (Some AgeLimit), None)] \<and>
   kv_sessions (handleMessage_ext 7 ex_user (Some (units ''35''))
                  (ex_env\<lparr>MIN_WEEKLY_HOURS := Some (units ''99'')\<rparr>) 0 (ex_world E_q7_age)) 7 = None \<and>
   posts (handleMessage_ext 7 ex_user (Some (units ''34'')) ex_env 0 (ex_world E_q7_age)) = [] \<and>
   map_option step
     (kv_sessions (handleMessage_ext 7 ex_user (Some (units ''34'')) ex_env 0 (ex_world E_q7_age)) 7)
     = Some E_q8_student_types"
proof -
  have h: "fst (checkRateLimit 7 0 (ex_world E_q7_age))"
    "loadSession 7 (ex_world E_q7_age) = Some (ex_session E_q7_age)"
    "step (ex_session E_q7_age) = E_q7_age"
    by (simp_all add: ex_defs io_defs Let_def)
  have n: "\<not> is_command (message_text (Some (units ''35'')))"
    "\<not> is_command (message_text (Some (units ''34'')))"
    by (simp_all add: stmt_defs str_defs)
  have p: "parseInt (message_text (Some (units ''35''))) = Some 35"
    "parseInt (message_text (Some (units ''34''))) = Some 34"
    by (simp_all add: stmt_defs str_defs)
  have s0: "sent (ex_world E_q7_age) = []" "posts (ex_world E_q7_age) = []"
    by (simp_all add: ex_world_def)
  from age_gate_fixed[OF h n(1) p(1), of ex_user "ex_env\<lparr>MIN_WEEKLY_HOURS := Some (units ''99'')\<rparr>"]
    age_gate_fixed[OF h n(2) p(2), of ex_user ex_env]
    h n p
  show ?thesis by (simp add: s0)
qed

end
